theory Spec2Isabelle
  imports Main
begin

section \<open>Python strings\<close>

text \<open>
  A Python \<open>str\<close> is a sequence of Unicode code points, and \<open>len\<close> counts code points.
  A string is therefore a list of code points (natural numbers); the string literals of
  \<open>app.py\<close> are all ASCII and are written with \<open>lit\<close>.
\<close>

type_synonym pystr = "nat list"

definition lit :: "string \<Rightarrow> pystr" where
  "lit s = map of_char s"

text \<open>
  The Unicode character database behind \<open>str.isdigit\<close>, \<open>str.isdecimal\<close> and the \<open>\d\<close> of
  \<open>re\<close> (Unicode 14.0, the database of CPython 3.11). The characters with a decimal value
  (general category Nd) come in runs of ten, one run per script, each starting at that
  script's digit zero: \<open>decimal_zeros\<close> lists the zeros. \<open>other_digits\<close> lists the ranges of
  the characters that have a digit value but no decimal value (superscripts, circled
  digits and the like).
\<close>

definition decimal_zeros :: "nat list" where
  "decimal_zeros =
    [48, 1632, 1776, 1984, 2406, 2534, 2662, 2790, 2918, 3046, 3174, 3302, 3430, 3558,
     3664, 3792, 3872, 4160, 4240, 6112, 6160, 6470, 6608, 6784, 6800, 6992, 7088, 7232,
     7248, 42528, 43216, 43264, 43472, 43504, 43600, 44016, 65296, 66720, 68912, 69734,
     69872, 69942, 70096, 70384, 70736, 70864, 71248, 71360, 71472, 71904, 72016, 72784,
     73040, 73120, 92768, 92864, 93008, 120782, 120792, 120802, 120812, 120822, 123200,
     123632, 125264, 130032]"

definition other_digits :: "(nat \<times> nat) list" where
  "other_digits =
    [(178, 179), (185, 185), (4969, 4977), (6618, 6618), (8304, 8304), (8308, 8313),
     (8320, 8329), (9312, 9320), (9332, 9340), (9352, 9360), (9450, 9450), (9461, 9469),
     (9471, 9471), (10102, 10110), (10112, 10120), (10122, 10130), (68160, 68163),
     (69216, 69224), (69714, 69722), (127232, 127242)]"

definition decimal_value :: "nat \<Rightarrow> nat option" where
  "decimal_value c =
     map_option (\<lambda>z. c - z) (List.find (\<lambda>z. z \<le> c \<and> c \<le> z + 9) decimal_zeros)"

definition isdecimal_cp :: "nat \<Rightarrow> bool" where
  "isdecimal_cp c = (decimal_value c \<noteq> None)"

definition isdigit_cp :: "nat \<Rightarrow> bool" where
  "isdigit_cp c = (isdecimal_cp c \<or> list_ex (\<lambda>(lo, hi). lo \<le> c \<and> c \<le> hi) other_digits)"

text \<open>\<open>str.isdigit\<close>: at least one character, and every character is a digit.\<close>

definition isdigit :: "pystr \<Rightarrow> bool" where
  "isdigit s = (s \<noteq> [] \<and> list_all isdigit_cp s)"

text \<open>
  \<open>str.lower\<close> on a string of code points below 256 (ASCII and Latin-1) works character by
  character: \<open>A\<close>..\<open>Z\<close> (65..90) and the capital letters 192..222, without the multiplication
  sign 215, move up by 32, and every other character stays, among them the sharp s (223).
  On a string with a code point from 256 on it follows the case mappings of the Unicode
  database (with the context rule for the final sigma), which the field \<open>unicode_lower\<close>
  stands for: what differs between installations, or is a table of the library too large
  to write out, is a parameter of the model. The C library's \<open>strftime\<close> writes \<open>%Y\<close> for a
  year below 1000 either padded with zeros to four digits or unpadded (glibc):
  \<open>pads_year\<close>.
\<close>

record platform =
  unicode_lower :: "pystr \<Rightarrow> pystr"
  pads_year :: bool

definition latin1_lower :: "nat \<Rightarrow> nat" where
  "latin1_lower c =
     (if (65 \<le> c \<and> c \<le> 90) \<or> (192 \<le> c \<and> c \<le> 222 \<and> c \<noteq> 215) then c + 32 else c)"

definition lower :: "platform \<Rightarrow> pystr \<Rightarrow> pystr" where
  "lower pf s = (if list_all (\<lambda>c. c < 256) s then map latin1_lower s else unicode_lower pf s)"

text \<open>\<open>sep.join(xs)\<close>\<close>

fun join :: "pystr \<Rightarrow> pystr list \<Rightarrow> pystr" where
  "join sep [] = []"
| "join sep [x] = x"
| "join sep (x # y # ys) = x @ sep @ join sep (y # ys)"

section \<open>Exceptions\<close>

text \<open>
  Every exception the code raises is a \<open>ValueError\<close> with a message; \<open>str(e)\<close> is the
  message.
\<close>

datatype exn = ValueError pystr

section \<open>Field validators\<close>

text \<open>\<open>Name(value)\<close> stores the value as it is; a name is modelled by its value.\<close>

definition Name :: "pystr \<Rightarrow> pystr" where
  "Name v = v"

text \<open>\<open>Phone(value)\<close>: a phone is modelled by its \<open>value\<close> field.\<close>

definition Phone :: "pystr \<Rightarrow> exn + pystr" where
  "Phone v =
     (if length v \<noteq> 10 \<or> \<not> isdigit v
      then Inl (ValueError (lit ''Phone number must be a 10-digit number.''))
      else Inr v)"

subsection \<open>\<open>datetime.strptime(value, "%d.%m.%Y")\<close>\<close>

text \<open>
  \<open>_strptime\<close> turns the format into the regular expression
  \<^verbatim>\<open>(?P<d>3[0-1]|[1-2]\d|0[1-9]|[1-9]| [1-9])\.(?P<m>1[0-2]|0[1-9]|[1-9])\.(?P<Y>\d\d\d\d)\<close>,
  matches it at the start of the string with \<open>re.match\<close> (ordered alternatives,
  backtracking), fails when text is left after the match, converts the three groups with
  \<open>int\<close> and builds the date, which fails when the date does not exist.
\<close>

datatype rx =
    Chr nat
  | Rng nat nat
  | Dec
  | Seq rx rx
  | Alt rx rx

text \<open>
  \<open>rx_match r s\<close> lists what is left of \<open>s\<close> after each way \<open>r\<close> can match a prefix of it,
  in the order in which a backtracking matcher tries them.
\<close>

fun rx_match :: "rx \<Rightarrow> pystr \<Rightarrow> pystr list" where
  "rx_match (Chr c) s = (case s of [] \<Rightarrow> [] | x # t \<Rightarrow> if x = c then [t] else [])"
| "rx_match (Rng lo hi) s = (case s of [] \<Rightarrow> [] | x # t \<Rightarrow> if lo \<le> x \<and> x \<le> hi then [t] else [])"
| "rx_match Dec s = (case s of [] \<Rightarrow> [] | x # t \<Rightarrow> if isdecimal_cp x then [t] else [])"
| "rx_match (Seq a b) s = concat (map (rx_match b) (rx_match a s))"
| "rx_match (Alt a b) s = rx_match a s @ rx_match b s"

definition re_d :: rx where
  "re_d = Alt (Seq (Chr 51) (Rng 48 49))
         (Alt (Seq (Rng 49 50) Dec)
         (Alt (Seq (Chr 48) (Rng 49 57))
         (Alt (Rng 49 57)
              (Seq (Chr 32) (Rng 49 57)))))"

definition re_m :: rx where
  "re_m = Alt (Seq (Chr 49) (Rng 48 50))
         (Alt (Seq (Chr 48) (Rng 49 57))
              (Rng 49 57))"

definition re_Y :: rx where
  "re_Y = Seq Dec (Seq Dec (Seq Dec Dec))"

text \<open>
  \<open>int(s)\<close> on the text of a group: spaces in front are skipped, and the rest must be
  decimal digits of any script. (The groups hold nothing else.)
\<close>

definition py_int :: "pystr \<Rightarrow> nat option" where
  "py_int s =
     (let t = dropWhile (\<lambda>c. c = 32) s in
      if t \<noteq> [] \<and> list_all isdecimal_cp t
      then Some (foldl (\<lambda>n c. 10 * n + the (decimal_value c)) 0 t)
      else None)"

text \<open>
  The stored \<open>datetime\<close>: \<open>strptime\<close> with this format leaves the time of day at 00:00:00,
  so the date fields are the whole value.
\<close>

record datetime =
  year :: nat
  month :: nat
  day :: nat

definition is_leap :: "nat \<Rightarrow> bool" where
  "is_leap y = (y mod 4 = 0 \<and> (y mod 100 \<noteq> 0 \<or> y mod 400 = 0))"

definition days_in_month :: "nat \<Rightarrow> nat \<Rightarrow> nat" where
  "days_in_month y m =
     (if m = 2 \<and> is_leap y then 29
      else [31, 28, 31, 30, 31, 30, 31, 31, 30, 31, 30, 31] ! (m - 1))"

text \<open>The constructor \<open>datetime(year, month, day)\<close>; \<open>None\<close> is its \<open>ValueError\<close>.\<close>

definition datetime_new :: "nat \<Rightarrow> nat \<Rightarrow> nat \<Rightarrow> datetime option" where
  "datetime_new y m d =
     (if 1 \<le> y \<and> y \<le> 9999 \<and> 1 \<le> m \<and> m \<le> 12 \<and> 1 \<le> d \<and> d \<le> days_in_month y m
      then Some \<lparr>year = y, month = m, day = d\<rparr>
      else None)"

text \<open>
  The first match of the whole expression, as the groups \<open>d\<close>, \<open>m\<close>, \<open>Y\<close> and the text left
  after it. A group's text is what its expression consumed.
\<close>

definition consumed :: "pystr \<Rightarrow> pystr \<Rightarrow> pystr" where
  "consumed s rest = take (length s - length rest) s"

definition re_match_dmY :: "pystr \<Rightarrow> (pystr \<times> pystr \<times> pystr \<times> pystr) option" where
  "re_match_dmY s =
     (case concat (map (\<lambda>r1. concat (map (\<lambda>r2. concat (map (\<lambda>r3. concat (map (\<lambda>r4.
             map (\<lambda>r5. (consumed s r1, consumed r2 r3, consumed r4 r5, r5)) (rx_match re_Y r4))
             (rx_match (Chr 46) r3))) (rx_match re_m r2))) (rx_match (Chr 46) r1)))
           (rx_match re_d s)) of
        [] \<Rightarrow> None
      | x # _ \<Rightarrow> Some x)"

text \<open>\<open>None\<close> is the \<open>ValueError\<close> of \<open>strptime\<close>, whatever its message.\<close>

definition strptime_dmY :: "pystr \<Rightarrow> datetime option" where
  "strptime_dmY s =
     (case re_match_dmY s of
        None \<Rightarrow> None
      | Some (d, m, y, rest) \<Rightarrow>
          if rest \<noteq> [] then None
          else (case (py_int y, py_int m, py_int d) of
                  (Some yn, Some mn, Some dn) \<Rightarrow> datetime_new yn mn dn
                | _ \<Rightarrow> None))"

text \<open>\<open>Birthday(value)\<close>: a birthday is modelled by its \<open>value\<close> field, the parsed date.\<close>

definition Birthday :: "pystr \<Rightarrow> exn + datetime" where
  "Birthday v =
     (case strptime_dmY v of
        Some dt \<Rightarrow> Inr dt
      | None \<Rightarrow> Inl (ValueError (lit ''Invalid date format. Use DD.MM.YYYY'')))"

subsection \<open>\<open>strftime('%d.%m.%Y')\<close>\<close>

fun dec :: "nat \<Rightarrow> pystr" where
  "dec n = (if n < 10 then [48 + n] else dec (n div 10) @ [48 + n mod 10])"

declare dec.simps [simp del]

definition zfill :: "nat \<Rightarrow> pystr \<Rightarrow> pystr" where
  "zfill w s = replicate (w - length s) 48 @ s"

definition strftime_dmY :: "platform \<Rightarrow> datetime \<Rightarrow> pystr" where
  "strftime_dmY pf dt =
     zfill 2 (dec (day dt)) @ [46] @ zfill 2 (dec (month dt)) @ [46] @
     (if pads_year pf then zfill 4 (dec (year dt)) else dec (year dt))"

section \<open>Record\<close>

record Record =
  name :: pystr
  phones :: "pystr list"
  birthday :: "datetime option"

definition Record_init :: "pystr \<Rightarrow> Record" where
  "Record_init nm = \<lparr>name = Name nm, phones = [], birthday = None\<rparr>"

text \<open>The loop of \<open>add_phone\<close> over the phones the record holds.\<close>

fun phone_exists :: "pystr list \<Rightarrow> pystr \<Rightarrow> bool" where
  "phone_exists [] v = False"
| "phone_exists (p # ps) v = (if p = v then True else phone_exists ps v)"

text \<open>
  The two methods change the record in place and may raise: they return the outcome with
  the record as the call leaves it.
\<close>

definition Record_add_phone :: "Record \<Rightarrow> pystr \<Rightarrow> (exn + unit) \<times> Record" where
  "Record_add_phone r v =
     (if phone_exists (phones r) v
      then (Inl (ValueError (lit ''Phone number already exists.'')), r)
      else (case Phone v of
              Inl e \<Rightarrow> (Inl e, r)
            | Inr p \<Rightarrow> (Inr (), r\<lparr>phones := phones r @ [p]\<rparr>)))"

definition Record_add_birthday :: "Record \<Rightarrow> pystr \<Rightarrow> (exn + unit) \<times> Record" where
  "Record_add_birthday r v =
     (case Birthday v of
        Inl e \<Rightarrow> (Inl e, r)
      | Inr b \<Rightarrow> (Inr (), r\<lparr>birthday := Some b\<rparr>))"

section \<open>AddressBook\<close>

text \<open>
  The book owns its records: a record enters it only as the fresh object that the add
  handler creates, so no object is in the list twice. The list therefore holds the records
  themselves, and the reference that \<open>find\<close> returns is the position of the record in the
  list; a handler that changes the record through the reference updates the list there.
\<close>

record AddressBook =
  contacts :: "Record list"

definition AddressBook_init :: AddressBook where
  "AddressBook_init = \<lparr>contacts = []\<rparr>"

definition AddressBook_add_record :: "AddressBook \<Rightarrow> Record \<Rightarrow> AddressBook" where
  "AddressBook_add_record book r = book\<lparr>contacts := contacts book @ [r]\<rparr>"

fun find_in :: "platform \<Rightarrow> Record list \<Rightarrow> pystr \<Rightarrow> nat option" where
  "find_in pf [] nm = None"
| "find_in pf (c # cs) nm =
     (if lower pf (name c) = lower pf nm then Some 0 else map_option Suc (find_in pf cs nm))"

definition AddressBook_find :: "platform \<Rightarrow> AddressBook \<Rightarrow> pystr \<Rightarrow> nat option" where
  "AddressBook_find pf book nm = find_in pf (contacts book) nm"

definition set_record :: "AddressBook \<Rightarrow> nat \<Rightarrow> Record \<Rightarrow> AddressBook" where
  "set_record book i r = book\<lparr>contacts := (contacts book)[i := r]\<rparr>"

section \<open>Command handlers\<close>

text \<open>
  A handler returns a string or, for \<open>all\<close>, the list of records. The body of a handler
  returns or raises, and leaves the book as it is at that moment: its outcome is the
  result or the exception, with the book. The decorator \<open>input_error\<close> calls the body with
  the positional arguments and turns an exception into the string \<open>f"Error: {e}"\<close>.
  Where a message starts with an apostrophe, the apostrophe is written as its code
  point 39.
\<close>

datatype result = Str pystr | Contacts "Record list"

type_synonym outcome = "(exn + result) \<times> AddressBook"

definition input_error :: "('a \<Rightarrow> outcome) \<Rightarrow> 'a \<Rightarrow> result \<times> AddressBook" where
  "input_error func a =
     (case func a of
        (Inl (ValueError m), book) \<Rightarrow> (Str (lit ''Error: '' @ m), book)
      | (Inr r, book) \<Rightarrow> (r, book))"

fun add_contact_body :: "platform \<Rightarrow> pystr list \<times> AddressBook \<Rightarrow> outcome" where
  "add_contact_body pf (nm # phone # _, book) =
     (let (i, book1, message) =
            (case AddressBook_find pf book nm of
               None \<Rightarrow> (length (contacts book), AddressBook_add_record book (Record_init nm),
                         lit ''Contact added.'')
             | Some i \<Rightarrow> (i, book, lit ''Contact updated.''))
      in if phone \<noteq> []
         then (case Record_add_phone (contacts book1 ! i) phone of
                 (Inl e, r) \<Rightarrow> (Inl e, set_record book1 i r)
               | (Inr _, r) \<Rightarrow> (Inr (Str (message @ lit '' Phone number: '' @ phone)),
                               set_record book1 i r))
         else (Inr (Str message), book1))"
| "add_contact_body pf (_, book) =
     (Inr (Str (lit ''Invalid command. Use 'add [name] [phone]'.'')), book)"

definition add_contact :: "platform \<Rightarrow> pystr list \<Rightarrow> AddressBook \<Rightarrow> result \<times> AddressBook" where
  "add_contact pf args book = input_error (add_contact_body pf) (args, book)"

fun change_contact_body :: "platform \<Rightarrow> pystr list \<times> AddressBook \<Rightarrow> outcome" where
  "change_contact_body pf ([nm, new_phone], book) =
     (case AddressBook_find pf book nm of
        Some i \<Rightarrow>
          (let book1 = set_record book i ((contacts book ! i)\<lparr>phones := []\<rparr>) in
           case Record_add_phone (contacts book1 ! i) new_phone of
             (Inl e, r) \<Rightarrow> (Inl e, set_record book1 i r)
           | (Inr _, r) \<Rightarrow> (Inr (Str (lit ''Phone number changed for '' @ nm @ lit ''.'')),
                           set_record book1 i r))
      | None \<Rightarrow> (Inr (Str (lit ''Contact '' @ nm @ lit '' not found.'')), book))"
| "change_contact_body pf (_, book) =
     (Inr (Str (lit ''Invalid command. Please use 'change [name] [new_phone]'.'')), book)"

definition change_contact :: "platform \<Rightarrow> pystr list \<Rightarrow> AddressBook \<Rightarrow> result \<times> AddressBook" where
  "change_contact pf args book = input_error (change_contact_body pf) (args, book)"

fun show_phone_body :: "platform \<Rightarrow> pystr list \<times> AddressBook \<Rightarrow> outcome" where
  "show_phone_body pf ([nm], book) =
     (case AddressBook_find pf book nm of
        Some i \<Rightarrow>
          (if phones (contacts book ! i) \<noteq> []
           then (Inr (Str (nm @ [39] @ lit ''s phone number is: '' @
                           join (lit '', '') (phones (contacts book ! i)))), book)
           else (Inr (Str (nm @ lit '' doesn't have a phone number set.'')), book))
      | None \<Rightarrow> (Inr (Str (lit ''Contact '' @ nm @ lit '' not found.'')), book))"
| "show_phone_body pf (_, book) =
     (Inr (Str (lit ''Invalid command. Use 'phone [name]'.'')), book)"

definition show_phone :: "platform \<Rightarrow> pystr list \<Rightarrow> AddressBook \<Rightarrow> result \<times> AddressBook" where
  "show_phone pf args book = input_error (show_phone_body pf) (args, book)"

definition show_all_contacts_body :: "AddressBook \<Rightarrow> outcome" where
  "show_all_contacts_body book = (Inr (Contacts (contacts book)), book)"

definition show_all_contacts :: "AddressBook \<Rightarrow> result \<times> AddressBook" where
  "show_all_contacts book = input_error show_all_contacts_body book"

fun add_birthday_body :: "platform \<Rightarrow> pystr list \<times> AddressBook \<Rightarrow> outcome" where
  "add_birthday_body pf ([nm, date], book) =
     (case AddressBook_find pf book nm of
        Some i \<Rightarrow>
          (case Record_add_birthday (contacts book ! i) date of
             (Inl e, r) \<Rightarrow> (Inl e, set_record book i r)
           | (Inr _, r) \<Rightarrow> (Inr (Str (lit ''Birthday added for '' @ nm @ lit ''.'')),
                           set_record book i r))
      | None \<Rightarrow> (Inr (Str (lit ''Contact '' @ nm @ lit '' not found.'')), book))"
| "add_birthday_body pf (_, book) =
     (Inr (Str (lit ''Invalid command. Use 'add-birthday [name] [date]'.'')), book)"

definition add_birthday :: "platform \<Rightarrow> pystr list \<Rightarrow> AddressBook \<Rightarrow> result \<times> AddressBook" where
  "add_birthday pf args book = input_error (add_birthday_body pf) (args, book)"

fun show_birthday_body :: "platform \<Rightarrow> pystr list \<times> AddressBook \<Rightarrow> outcome" where
  "show_birthday_body pf ([nm], book) =
     (case AddressBook_find pf book nm of
        Some i \<Rightarrow>
          (case birthday (contacts book ! i) of
             Some b \<Rightarrow> (Inr (Str (nm @ [39] @ lit ''s birthday is: '' @ strftime_dmY pf b)), book)
           | None \<Rightarrow> (Inr (Str (nm @ lit '' doesn't have a birthday set.'')), book))
      | None \<Rightarrow> (Inr (Str (lit ''Contact '' @ nm @ lit '' not found.'')), book))"
| "show_birthday_body pf (_, book) =
     (Inr (Str (lit ''Invalid command. Use 'show-birthday [name]'.'')), book)"

definition show_birthday :: "platform \<Rightarrow> pystr list \<Rightarrow> AddressBook \<Rightarrow> result \<times> AddressBook" where
  "show_birthday pf args book = input_error (show_birthday_body pf) (args, book)"

text \<open>The loop of \<open>birthdays\<close> that collects one line for each record with a birthday.\<close>

fun all_birthdays :: "platform \<Rightarrow> Record list \<Rightarrow> pystr list" where
  "all_birthdays pf [] = []"
| "all_birthdays pf (c # cs) =
     (case birthday c of
        Some b \<Rightarrow> (name c @ lit '': '' @ strftime_dmY pf b) # all_birthdays pf cs
      | None \<Rightarrow> all_birthdays pf cs)"

definition birthdays_body :: "platform \<Rightarrow> AddressBook \<Rightarrow> outcome" where
  "birthdays_body pf book =
     (if all_birthdays pf (contacts book) \<noteq> []
      then (Inr (Str (join [10] (all_birthdays pf (contacts book)))), book)
      else (Inr (Str (lit ''No birthdays found.'')), book))"

definition birthdays :: "platform \<Rightarrow> AddressBook \<Rightarrow> result \<times> AddressBook" where
  "birthdays pf book = input_error (birthdays_body pf) book"

section \<open>Values and predicates used in the statements\<close>

text \<open>
  A platform for evaluating the handlers on strings of code points below 256, where
  \<open>unicode_lower\<close> is never consulted; \<open>%Y\<close> is unpadded, as with glibc.
\<close>

definition example_platform :: platform where
  "example_platform = \<lparr>unicode_lower = id, pads_year = False\<rparr>"

text \<open>The book after \<open>add John 1234567890\<close> and \<open>add-birthday John 01.02.1990\<close>.\<close>

definition john_book :: AddressBook where
  "john_book =
     \<lparr>contacts = [\<lparr>name = lit ''John'', phones = [lit ''1234567890''],
                   birthday = Some \<lparr>year = 1990, month = 2, day = 1\<rparr>\<rparr>]\<rparr>"


text \<open>The digits \<open>0\<close>..\<open>9\<close>.\<close>

definition ascii_digit :: "nat \<Rightarrow> bool" where
  "ascii_digit c = (48 \<le> c \<and> c \<le> 57)"

text \<open>
  The texts that the three groups of the \<open>strptime\<close> expression accept: a day is \<open>1\<close>..\<open>9\<close>,
  \<open>01\<close>..\<open>09\<close>, \<open>10\<close>..\<open>31\<close> or a space and \<open>1\<close>..\<open>9\<close> (the second digit of \<open>10\<close>..\<open>29\<close> may be a
  decimal digit of any script); a month is \<open>1\<close>..\<open>9\<close>, \<open>01\<close>..\<open>09\<close> or \<open>10\<close>..\<open>12\<close>; a year is
  four decimal digits of any script.
\<close>

definition day_text :: "pystr \<Rightarrow> bool" where
  "day_text s =
     (case s of
        [a] \<Rightarrow> 49 \<le> a \<and> a \<le> 57
      | [a, b] \<Rightarrow>
          (a = 51 \<and> 48 \<le> b \<and> b \<le> 49) \<or> (49 \<le> a \<and> a \<le> 50 \<and> isdecimal_cp b) \<or>
          ((a = 48 \<or> a = 32) \<and> 49 \<le> b \<and> b \<le> 57)
      | _ \<Rightarrow> False)"

definition month_text :: "pystr \<Rightarrow> bool" where
  "month_text s =
     (case s of
        [a] \<Rightarrow> 49 \<le> a \<and> a \<le> 57
      | [a, b] \<Rightarrow> (a = 49 \<and> 48 \<le> b \<and> b \<le> 50) \<or> (a = 48 \<and> 49 \<le> b \<and> b \<le> 57)
      | _ \<Rightarrow> False)"

definition year_text :: "pystr \<Rightarrow> bool" where
  "year_text s = (length s = 4 \<and> list_all isdecimal_cp s)"

text \<open>
  The exact pattern of the specification: two digits, a dot, two digits, a dot, four
  digits, with the digits \<open>0\<close>..\<open>9\<close>.
\<close>

definition dd_mm_yyyy :: "pystr \<Rightarrow> bool" where
  "dd_mm_yyyy v =
     (length v = 10 \<and> v ! 2 = 46 \<and> v ! 5 = 46 \<and>
      list_all (\<lambda>i. ascii_digit (v ! i)) [0, 1, 3, 4, 6, 7, 8, 9])"

text \<open>The number that two and four digits \<open>0\<close>..\<open>9\<close> write.\<close>

definition num2 :: "nat \<Rightarrow> nat \<Rightarrow> nat" where
  "num2 a b = 10 * (a - 48) + (b - 48)"

definition num4 :: "nat \<Rightarrow> nat \<Rightarrow> nat \<Rightarrow> nat \<Rightarrow> nat" where
  "num4 a b c d = 1000 * (a - 48) + 100 * (b - 48) + 10 * (c - 48) + (d - 48)"

section \<open>Auxiliary facts\<close>

lemma find_in_less: "find_in pf cs nm = Some i \<Longrightarrow> i < length cs"
  by (induction cs arbitrary: i) (auto split: if_splits)



lemma find_less: "AddressBook_find pf book nm = Some i \<Longrightarrow> i < length (contacts book)"
  by (simp add: AddressBook_find_def find_in_less)

lemma phone_exists_iff: "phone_exists ps v \<longleftrightarrow> v \<in> set ps"
  by (induction ps) auto

lemma set_record_same: "i < length (contacts book) \<Longrightarrow> set_record book i (contacts book ! i) = book"
  by (simp add: set_record_def)

lemma snd_input_error: "snd (input_error func a) = snd (func a)"
  by (auto simp: input_error_def split: prod.splits sum.splits exn.splits)

lemma input_error_raise:
  "func a = (Inl (ValueError m), book) \<Longrightarrow> input_error func a = (Str (lit ''Error: '' @ m), book)"
  by (simp add: input_error_def)

lemma input_error_return: "func a = (Inr r, book) \<Longrightarrow> input_error func a = (r, book)"
  by (simp add: input_error_def)

lemma Phone_cases:
  "Phone v = Inr v \<or> Phone v = Inl (ValueError (lit ''Phone number must be a 10-digit number.''))"
  by (simp add: Phone_def)

lemma Phone_Inr: "Phone v = Inr p \<Longrightarrow> p = v"
  by (simp add: Phone_def split: if_splits)

lemma Phone_Inl:
  "Phone v = Inl e \<Longrightarrow> e = ValueError (lit ''Phone number must be a 10-digit number.'')"
  by (simp add: Phone_def split: if_splits)

lemma show_phone_body_book: "snd (show_phone_body pf (args, book)) = book"
  by (cases "(pf, (args, book))" rule: show_phone_body.cases) (auto split: option.splits)

lemma show_birthday_body_book: "snd (show_birthday_body pf (args, book)) = book"
  by (cases "(pf, (args, book))" rule: show_birthday_body.cases) (auto split: option.splits)


text \<open>Evaluating the model on closed terms.\<close>

lemmas eval_strings = lit_def lower_def latin1_lower_def

lemmas eval_digits =
  decimal_value_def decimal_zeros_def isdecimal_cp_def isdigit_cp_def other_digits_def
  isdigit_def ascii_digit_def

lemmas eval_book =
  example_platform_def john_book_def AddressBook_find_def AddressBook_init_def
  AddressBook_add_record_def Record_init_def Name_def set_record_def
  Record_add_phone_def Record_add_birthday_def Phone_def input_error_def

subsection \<open>The regular expression of \<open>strptime\<close>\<close>

lemma decimal_value_ascii: "ascii_digit c \<Longrightarrow> decimal_value c = Some (c - 48)"
  by (simp add: ascii_digit_def decimal_value_def decimal_zeros_def)

lemma isdecimal_ascii: "ascii_digit c \<Longrightarrow> isdecimal_cp c"
  by (simp add: isdecimal_cp_def decimal_value_ascii)

lemma not_decimal_dot_space: "\<not> isdecimal_cp 46" "\<not> isdecimal_cp 32"
  by (simp_all add: isdecimal_cp_def decimal_value_def decimal_zeros_def)

lemma rx_Chr: "r \<in> set (rx_match (Chr c) s) \<longleftrightarrow> s = c # r"
  by (auto split: list.splits)

lemma rx_Rng: "r \<in> set (rx_match (Rng lo hi) s) \<longleftrightarrow> (\<exists>x. s = x # r \<and> lo \<le> x \<and> x \<le> hi)"
  by (auto split: list.splits)

lemma rx_Dec: "r \<in> set (rx_match Dec s) \<longleftrightarrow> (\<exists>x. s = x # r \<and> isdecimal_cp x)"
  by (auto split: list.splits)

lemma rx_Seq: "r \<in> set (rx_match (Seq a b) s) \<longleftrightarrow> (\<exists>t \<in> set (rx_match a s). r \<in> set (rx_match b t))"
  by auto

lemma rx_Alt: "r \<in> set (rx_match (Alt a b) s) \<longleftrightarrow> r \<in> set (rx_match a s) \<or> r \<in> set (rx_match b s)"
  by auto

lemmas rx_mem = rx_Chr rx_Rng rx_Dec rx_Seq rx_Alt

lemma day_text_shapes:
  "day_text D \<longleftrightarrow>
     (\<exists>a. D = [a] \<and> 49 \<le> a \<and> a \<le> 57) \<or>
     (\<exists>a b. D = [a, b] \<and>
        ((a = 51 \<and> 48 \<le> b \<and> b \<le> 49) \<or> (49 \<le> a \<and> a \<le> 50 \<and> isdecimal_cp b) \<or>
         ((a = 48 \<or> a = 32) \<and> 49 \<le> b \<and> b \<le> 57)))"
  by (simp add: day_text_def split: list.splits)

lemma month_text_shapes:
  "month_text M \<longleftrightarrow>
     (\<exists>a. M = [a] \<and> 49 \<le> a \<and> a \<le> 57) \<or>
     (\<exists>a b. M = [a, b] \<and> ((a = 49 \<and> 48 \<le> b \<and> b \<le> 50) \<or> (a = 48 \<and> 49 \<le> b \<and> b \<le> 57)))"
  by (simp add: month_text_def split: list.splits)

lemma year_text_shapes:
  "year_text Y \<longleftrightarrow>
     (\<exists>a b c d. Y = [a, b, c, d] \<and> isdecimal_cp a \<and> isdecimal_cp b \<and> isdecimal_cp c \<and> isdecimal_cp d)"
  by (auto simp: year_text_def length_Suc_conv eval_nat_numeral)

lemma re_d_iff: "r \<in> set (rx_match re_d s) \<longleftrightarrow> (\<exists>D. s = D @ r \<and> day_text D)"
  unfolding re_d_def rx_mem day_text_shapes by (auto simp: ex_disj_distrib)

lemma re_m_iff: "r \<in> set (rx_match re_m s) \<longleftrightarrow> (\<exists>M. s = M @ r \<and> month_text M)"
  unfolding re_m_def rx_mem month_text_shapes by (auto simp: ex_disj_distrib)

lemma re_Y_iff: "r \<in> set (rx_match re_Y s) \<longleftrightarrow> (\<exists>Y. s = Y @ r \<and> year_text Y)"
  unfolding re_Y_def rx_mem year_text_shapes by auto

declare rx_match.simps [simp del]

lemma day_text_no_dot: "day_text D \<Longrightarrow> 46 \<notin> set D"
  using not_decimal_dot_space by (auto simp: day_text_shapes)

lemma month_text_no_dot: "month_text M \<Longrightarrow> 46 \<notin> set M"
  by (auto simp: month_text_shapes)

lemma takeWhile_dot: "46 \<notin> set D \<Longrightarrow> takeWhile (\<lambda>c. c \<noteq> 46) (D @ 46 # r) = (D :: nat list)"
  by (induction D) auto

lemma split_at_dot_unique:
  assumes "D @ 46 # r = D' @ 46 # r'" and "46 \<notin> set D" and "46 \<notin> set D'"
  shows "D = (D' :: nat list) \<and> r = r'"
proof -
  have "takeWhile (\<lambda>c. c \<noteq> 46) (D @ 46 # r) = D"
    using assms(2) by (rule takeWhile_dot)
  moreover have "takeWhile (\<lambda>c. c \<noteq> 46) (D' @ 46 # r') = D'"
    using assms(3) by (rule takeWhile_dot)
  ultimately have "D = D'" using assms(1) by simp
  with assms(1) show ?thesis by simp
qed

lemma first_Some: "(case xs of [] \<Rightarrow> None | x # _ \<Rightarrow> Some x) = Some y \<Longrightarrow> y \<in> set xs"
  by (cases xs) auto

lemma consumed_append: "consumed (p @ r) r = p"
  by (simp add: consumed_def)

text \<open>The matches of the whole expression, in the order of the matcher.\<close>

lemma matches_mem:
  "x \<in> set (concat (map (\<lambda>r1. concat (map (\<lambda>r2. concat (map (\<lambda>r3. concat (map (\<lambda>r4.
             map (\<lambda>r5. (consumed s r1, consumed r2 r3, consumed r4 r5, r5)) (rx_match re_Y r4))
             (rx_match (Chr 46) r3))) (rx_match re_m r2))) (rx_match (Chr 46) r1)))
           (rx_match re_d s)))
   \<longleftrightarrow> (\<exists>D M Y rest. s = D @ 46 # M @ 46 # Y @ rest \<and> day_text D \<and> month_text M \<and>
          year_text Y \<and> x = (D, M, Y, rest))"
  (is "x \<in> set ?L \<longleftrightarrow> ?R")
proof
  assume "x \<in> set ?L"
  then obtain r1 r2 r3 r4 r5 where
    r: "r1 \<in> set (rx_match re_d s)" "r2 \<in> set (rx_match (Chr 46) r1)"
      "r3 \<in> set (rx_match re_m r2)" "r4 \<in> set (rx_match (Chr 46) r3)"
      "r5 \<in> set (rx_match re_Y r4)" and
    x: "x = (consumed s r1, consumed r2 r3, consumed r4 r5, r5)"
    by auto
  from r(1) obtain D where D: "s = D @ r1" "day_text D" by (auto simp: re_d_iff)
  from r(2) have r1: "r1 = 46 # r2" by (simp add: rx_Chr)
  from r(3) obtain M where M: "r2 = M @ r3" "month_text M" by (auto simp: re_m_iff)
  from r(4) have r3: "r3 = 46 # r4" by (simp add: rx_Chr)
  from r(5) obtain Y where Y: "r4 = Y @ r5" "year_text Y" by (auto simp: re_Y_iff)
  have "x = (D, M, Y, r5)"
    unfolding x D(1) M(1) Y(1) by (simp add: consumed_append)
  moreover have "s = D @ 46 # M @ 46 # Y @ r5"
    by (simp add: D(1) r1 M(1) r3 Y(1))
  ultimately show ?R using D(2) M(2) Y(2) by blast
next
  assume ?R
  then obtain D M Y rest where
    s: "s = D @ 46 # M @ 46 # Y @ rest" and t: "day_text D" "month_text M" "year_text Y" and
    x: "x = (D, M, Y, rest)"
    by blast
  have 1: "46 # M @ 46 # Y @ rest \<in> set (rx_match re_d s)"
    using s t(1) by (auto simp: re_d_iff)
  have 2: "M @ 46 # Y @ rest \<in> set (rx_match (Chr 46) (46 # M @ 46 # Y @ rest))"
    by (simp add: rx_Chr)
  have 3: "46 # Y @ rest \<in> set (rx_match re_m (M @ 46 # Y @ rest))"
    using t(2) by (auto simp: re_m_iff)
  have 4: "Y @ rest \<in> set (rx_match (Chr 46) (46 # Y @ rest))"
    by (simp add: rx_Chr)
  have 5: "rest \<in> set (rx_match re_Y (Y @ rest))"
    using t(3) by (auto simp: re_Y_iff)
  have c1: "consumed s (46 # M @ 46 # Y @ rest) = D"
    unfolding s by (rule consumed_append)
  have c2: "consumed (M @ 46 # Y @ rest) (46 # Y @ rest) = M"
    by (rule consumed_append)
  have c3: "consumed (Y @ rest) rest = Y"
    by (rule consumed_append)
  have "\<exists>r1\<in>set (rx_match re_d s). \<exists>r2\<in>set (rx_match (Chr 46) r1).
          \<exists>r3\<in>set (rx_match re_m r2). \<exists>r4\<in>set (rx_match (Chr 46) r3).
          \<exists>r5\<in>set (rx_match re_Y r4).
            x = (consumed s r1, consumed r2 r3, consumed r4 r5, r5)"
    by (rule bexI [OF _ 1], rule bexI [OF _ 2], rule bexI [OF _ 3], rule bexI [OF _ 4],
        rule bexI [OF _ 5]) (simp add: x c1 c2 c3)
  then show "x \<in> set ?L"
    by (simp add: image_iff)
qed

lemma re_match_dmY_iff:
  "re_match_dmY s = Some (D, M, Y, rest) \<longleftrightarrow>
     s = D @ 46 # M @ 46 # Y @ rest \<and> day_text D \<and> month_text M \<and> year_text Y"
proof
  assume "re_match_dmY s = Some (D, M, Y, rest)"
  then have "(D, M, Y, rest) \<in> set (concat (map (\<lambda>r1. concat (map (\<lambda>r2. concat (map (\<lambda>r3. concat (map (\<lambda>r4.
             map (\<lambda>r5. (consumed s r1, consumed r2 r3, consumed r4 r5, r5)) (rx_match re_Y r4))
             (rx_match (Chr 46) r3))) (rx_match re_m r2))) (rx_match (Chr 46) r1)))
           (rx_match re_d s)))"
    unfolding re_match_dmY_def by (rule first_Some)
  then show "s = D @ 46 # M @ 46 # Y @ rest \<and> day_text D \<and> month_text M \<and> year_text Y"
    unfolding matches_mem by simp
next
  assume a: "s = D @ 46 # M @ 46 # Y @ rest \<and> day_text D \<and> month_text M \<and> year_text Y"
  let ?L = "concat (map (\<lambda>r1. concat (map (\<lambda>r2. concat (map (\<lambda>r3. concat (map (\<lambda>r4.
             map (\<lambda>r5. (consumed s r1, consumed r2 r3, consumed r4 r5, r5)) (rx_match re_Y r4))
             (rx_match (Chr 46) r3))) (rx_match re_m r2))) (rx_match (Chr 46) r1)))
           (rx_match re_d s))"
  have mem: "(D, M, Y, rest) \<in> set ?L"
    unfolding matches_mem using a by blast
  have uniq: "x = (D, M, Y, rest)" if "x \<in> set ?L" for x
  proof -
    from that obtain D' M' Y' rest' where
      s: "s = D' @ 46 # M' @ 46 # Y' @ rest'" and
      t: "day_text D'" "month_text M'" "year_text Y'" and x: "x = (D', M', Y', rest')"
      unfolding matches_mem by blast
    have "D @ 46 # (M @ 46 # Y @ rest) = D' @ 46 # (M' @ 46 # Y' @ rest')"
      using a s by simp
    then have d: "D = D'" and r: "M @ 46 # (Y @ rest) = M' @ 46 # (Y' @ rest')"
      using split_at_dot_unique [of D _ D'] a t(1) by (auto dest: day_text_no_dot)
    from r have m: "M = M'" and y: "Y @ rest = Y' @ rest'"
      using split_at_dot_unique [of M _ M'] a t(2) by (auto dest: month_text_no_dot)
    from y a t(3) have "Y = Y' \<and> rest = rest'"
      by (simp add: year_text_def)
    with d m x show ?thesis by simp
  qed
  from mem obtain y ys where L: "?L = y # ys"
    by (cases ?L) auto
  then have "y \<in> set ?L" by simp
  then have "y = (D, M, Y, rest)" by (rule uniq)
  with L show "re_match_dmY s = Some (D, M, Y, rest)"
    unfolding re_match_dmY_def by simp
qed

subsection \<open>Numbers of the groups, dates and their formatting\<close>

lemma ascii_digit_not_space: "ascii_digit a \<Longrightarrow> a \<noteq> 32"
  by (simp add: ascii_digit_def)

lemma py_int1: "ascii_digit a \<Longrightarrow> py_int [a] = Some (a - 48)"
  by (simp add: py_int_def isdecimal_ascii decimal_value_ascii ascii_digit_not_space)

lemma py_int2: "ascii_digit a \<Longrightarrow> ascii_digit b \<Longrightarrow> py_int [a, b] = Some (num2 a b)"
  by (simp add: py_int_def isdecimal_ascii decimal_value_ascii ascii_digit_not_space num2_def)

lemma py_int4:
  "ascii_digit a \<Longrightarrow> ascii_digit b \<Longrightarrow> ascii_digit c \<Longrightarrow> ascii_digit d \<Longrightarrow>
   py_int [a, b, c, d] = Some (num4 a b c d)"
  by (simp add: py_int_def isdecimal_ascii decimal_value_ascii ascii_digit_not_space num4_def)

lemma py_int_day: "day_text D \<Longrightarrow> \<exists>n. py_int D = Some n"
  using not_decimal_dot_space(2)
  by (auto simp: day_text_shapes py_int_def isdecimal_ascii ascii_digit_def)

lemma py_int_month: "month_text M \<Longrightarrow> \<exists>n. py_int M = Some n"
  by (auto simp: month_text_shapes py_int_def isdecimal_ascii ascii_digit_def)

lemma py_int_year: "year_text Y \<Longrightarrow> \<exists>n. py_int Y = Some n"
  using not_decimal_dot_space(2)
  by (auto simp: year_text_shapes py_int_def)

lemma strptime_dmY_iff:
  "strptime_dmY s = Some dt \<longleftrightarrow>
     (\<exists>D M Y d m y. s = D @ 46 # M @ 46 # Y \<and> day_text D \<and> month_text M \<and> year_text Y \<and>
        py_int D = Some d \<and> py_int M = Some m \<and> py_int Y = Some y \<and>
        datetime_new y m d = Some dt)"
proof
  assume a: "strptime_dmY s = Some dt"
  then obtain D M Y rest where m: "re_match_dmY s = Some (D, M, Y, rest)"
    by (auto simp: strptime_dmY_def split: option.splits)
  with a have rest: "rest = []"
    by (auto simp: strptime_dmY_def split: if_splits)
  from m have t: "s = D @ 46 # M @ 46 # Y @ rest" "day_text D" "month_text M" "year_text Y"
    by (simp_all add: re_match_dmY_iff)
  from t obtain d mm y where n: "py_int D = Some d" "py_int M = Some mm" "py_int Y = Some y"
    using py_int_day py_int_month py_int_year by blast
  from a m rest n have dt: "datetime_new y mm d = Some dt"
    by (simp add: strptime_dmY_def)
  from t(1) rest have s: "s = D @ 46 # M @ 46 # Y"
    by simp
  from s t(2-4) n dt
  show "\<exists>D M Y d m y. s = D @ 46 # M @ 46 # Y \<and> day_text D \<and> month_text M \<and>
        year_text Y \<and> py_int D = Some d \<and> py_int M = Some m \<and> py_int Y = Some y \<and>
        datetime_new y m d = Some dt"
    by blast
next
  assume "\<exists>D M Y d m y. s = D @ 46 # M @ 46 # Y \<and> day_text D \<and> month_text M \<and>
        year_text Y \<and> py_int D = Some d \<and> py_int M = Some m \<and> py_int Y = Some y \<and>
        datetime_new y m d = Some dt"
  then obtain D M Y d m y where
    t: "s = D @ 46 # M @ 46 # Y @ []" "day_text D" "month_text M" "year_text Y" and
    n: "py_int D = Some d" "py_int M = Some m" "py_int Y = Some y" and
    dt: "datetime_new y m d = Some dt"
    by auto
  from t have "re_match_dmY s = Some (D, M, Y, [])"
    unfolding re_match_dmY_iff by blast
  with n dt show "strptime_dmY s = Some dt"
    by (simp add: strptime_dmY_def)
qed

lemma Birthday_cases:
  "(\<exists>dt. Birthday v = Inr dt) \<or>
   Birthday v = Inl (ValueError (lit ''Invalid date format. Use DD.MM.YYYY''))"
  by (simp add: Birthday_def split: option.splits)

lemma Birthday_Inr: "Birthday v = Inr dt \<longleftrightarrow> strptime_dmY v = Some dt"
  by (simp add: Birthday_def split: option.splits)

lemma datetime_new_iff:
  "datetime_new y m d = Some dt \<longleftrightarrow>
     dt = \<lparr>year = y, month = m, day = d\<rparr> \<and> 1 \<le> y \<and> y \<le> 9999 \<and> 1 \<le> m \<and> m \<le> 12 \<and>
     1 \<le> d \<and> d \<le> days_in_month y m"
  by (auto simp: datetime_new_def)

lemma days_in_month_le: "1 \<le> m \<Longrightarrow> m \<le> 12 \<Longrightarrow> days_in_month y m \<le> 31"
proof -
  assume "1 \<le> m" "m \<le> 12"
  then have "m = 1 \<or> m = 2 \<or> m = 3 \<or> m = 4 \<or> m = 5 \<or> m = 6 \<or> m = 7 \<or> m = 8 \<or> m = 9 \<or>
      m = 10 \<or> m = 11 \<or> m = 12"
    by arith
  then show ?thesis by (elim disjE) (simp_all add: days_in_month_def)
qed

lemma ten_chars:
  "length v = 10 \<Longrightarrow> v = [v ! 0, v ! 1, v ! 2, v ! 3, v ! 4, v ! 5, v ! 6, v ! 7, v ! 8, v ! 9]"
  by (auto simp: length_Suc_conv eval_nat_numeral)

lemma dec_digit: "n < 10 \<Longrightarrow> dec n = [48 + n]"
  by (simp add: dec.simps)

lemma dec_step: "w < 10 \<Longrightarrow> 0 < q \<Longrightarrow> dec (10 * q + w) = dec q @ [48 + w]"
  by (subst dec.simps) simp

lemma dec_nonempty: "dec n \<noteq> []"
  by (subst dec.simps) simp

lemma zfill_step:
  "w < 10 \<Longrightarrow> 0 < k \<or> 0 < q \<Longrightarrow> zfill (Suc k) (dec (10 * q + w)) = zfill k (dec q) @ [48 + w]"
proof (cases "q = 0")
  case True
  assume "w < 10" "0 < k \<or> 0 < q"
  with True have "0 < k" by simp
  then obtain j where "k = Suc j" by (cases k) auto
  with True \<open>w < 10\<close> show ?thesis
    by (simp add: zfill_def dec_digit replicate_append_same)
next
  case False
  assume "w < 10"
  with False show ?thesis
    by (simp add: zfill_def dec_step)
qed

lemma zfill1: "n < 10 \<Longrightarrow> zfill (Suc 0) (dec n) = [48 + n]"
  by (simp add: zfill_def dec_digit)

lemma zfill2:
  assumes "x < 10" "y < 10"
  shows "zfill 2 (dec (10 * x + y)) = [48 + x, 48 + y]"
proof -
  have "zfill (Suc (Suc 0)) (dec (10 * x + y)) = zfill (Suc 0) (dec x) @ [48 + y]"
    by (rule zfill_step) (use assms in simp_all)
  then show ?thesis
    unfolding zfill1 [OF assms(1)] numeral_2_eq_2 by simp
qed

lemma zfill4:
  assumes "x < 10" "y < 10" "z < 10" "w < 10"
  shows "zfill 4 (dec (10 * (10 * (10 * x + y) + z) + w)) = [48 + x, 48 + y, 48 + z, 48 + w]"
proof -
  have 4: "(4::nat) = Suc (Suc (Suc (Suc 0)))" by simp
  have a: "zfill (Suc (Suc (Suc (Suc 0)))) (dec (10 * (10 * (10 * x + y) + z) + w)) =
      zfill (Suc (Suc (Suc 0))) (dec (10 * (10 * x + y) + z)) @ [48 + w]"
    by (rule zfill_step) (use assms in simp_all)
  have b: "zfill (Suc (Suc (Suc 0))) (dec (10 * (10 * x + y) + z)) =
      zfill (Suc (Suc 0)) (dec (10 * x + y)) @ [48 + z]"
    by (rule zfill_step) (use assms in simp_all)
  have c: "zfill (Suc (Suc 0)) (dec (10 * x + y)) = zfill (Suc 0) (dec x) @ [48 + y]"
    by (rule zfill_step) (use assms in simp_all)
  show ?thesis
    unfolding 4 a b c zfill1 [OF assms(1)] by simp
qed

lemma dec4:
  assumes "0 < x" "x < 10" "y < 10" "z < 10" "w < 10"
  shows "dec (10 * (10 * (10 * x + y) + z) + w) = [48 + x, 48 + y, 48 + z, 48 + w]"
proof -
  have a: "dec (10 * (10 * (10 * x + y) + z) + w) = dec (10 * (10 * x + y) + z) @ [48 + w]"
    by (rule dec_step) (use assms in simp_all)
  have b: "dec (10 * (10 * x + y) + z) = dec (10 * x + y) @ [48 + z]"
    by (rule dec_step) (use assms in simp_all)
  have c: "dec (10 * x + y) = dec x @ [48 + y]"
    by (rule dec_step) (use assms in simp_all)
  show ?thesis
    unfolding a b c dec_digit [OF assms(2)] by simp
qed

lemma ascii_digit_value: "ascii_digit a \<Longrightarrow> a - 48 < 10" "ascii_digit a \<Longrightarrow> 48 + (a - 48) = a"
  by (auto simp: ascii_digit_def)

lemma num2_digits:
  assumes "ascii_digit a" "ascii_digit b"
  shows "zfill 2 (dec (num2 a b)) = [a, b]"
proof -
  have "zfill 2 (dec (10 * (a - 48) + (b - 48))) = [48 + (a - 48), 48 + (b - 48)]"
    by (rule zfill2) (rule ascii_digit_value, fact)+
  then show ?thesis
    unfolding num2_def by (simp only: ascii_digit_value(2) [OF assms(1)] ascii_digit_value(2) [OF assms(2)])
qed

lemma num4_horner:
  "num4 a b c d = 10 * (10 * (10 * (a - 48) + (b - 48)) + (c - 48)) + (d - 48)"
  by (simp add: num4_def)

lemma num4_digits_padded:
  assumes "ascii_digit a" "ascii_digit b" "ascii_digit c" "ascii_digit d"
  shows "zfill 4 (dec (num4 a b c d)) = [a, b, c, d]"
proof -
  have "zfill 4 (dec (10 * (10 * (10 * (a - 48) + (b - 48)) + (c - 48)) + (d - 48))) =
          [48 + (a - 48), 48 + (b - 48), 48 + (c - 48), 48 + (d - 48)]"
    by (rule zfill4) (rule ascii_digit_value, fact)+
  then show ?thesis
    unfolding num4_horner
    by (simp only: ascii_digit_value(2) [OF assms(1)] ascii_digit_value(2) [OF assms(2)]
        ascii_digit_value(2) [OF assms(3)] ascii_digit_value(2) [OF assms(4)])
qed

lemma num4_bounds:
  assumes "ascii_digit a" "ascii_digit b" "ascii_digit c" "ascii_digit d"
  shows "num4 a b c d \<le> 9999" and "1000 \<le> num4 a b c d \<Longrightarrow> 0 < a - 48"
proof -
  define x y z w where "x = a - 48" and "y = b - 48" and "z = c - 48" and "w = d - 48"
  have n: "num4 a b c d = 1000 * x + 100 * y + 10 * z + w"
    by (simp add: num4_def x_def y_def z_def w_def)
  have le: "x \<le> 9" "y \<le> 9" "z \<le> 9" "w \<le> 9"
    using assms by (auto simp: ascii_digit_def x_def y_def z_def w_def)
  from le show "num4 a b c d \<le> 9999"
    unfolding n by linarith
  assume "1000 \<le> num4 a b c d"
  with le have "0 < x"
    unfolding n by linarith
  then show "0 < a - 48"
    by (simp only: x_def)
qed

lemma num4_digits:
  assumes "ascii_digit a" "ascii_digit b" "ascii_digit c" "ascii_digit d"
    and big: "1000 \<le> num4 a b c d"
  shows "dec (num4 a b c d) = [a, b, c, d]"
proof -
  have pos: "0 < a - 48"
    using assms by (rule num4_bounds(2))
  have "dec (10 * (10 * (10 * (a - 48) + (b - 48)) + (c - 48)) + (d - 48)) =
          [48 + (a - 48), 48 + (b - 48), 48 + (c - 48), 48 + (d - 48)]"
    by (rule dec4) (rule pos, (rule ascii_digit_value, fact)+)
  then show ?thesis
    unfolding num4_horner
    by (simp only: ascii_digit_value(2) [OF assms(1)] ascii_digit_value(2) [OF assms(2)]
        ascii_digit_value(2) [OF assms(3)] ascii_digit_value(2) [OF assms(4)])
qed

lemma day_text_ascii:
  "ascii_digit a \<Longrightarrow> ascii_digit b \<Longrightarrow> day_text [a, b] \<longleftrightarrow> 1 \<le> num2 a b \<and> num2 a b \<le> 31"
  by (auto simp: day_text_def num2_def isdecimal_ascii ascii_digit_def)

lemma month_text_ascii:
  "ascii_digit a \<Longrightarrow> ascii_digit b \<Longrightarrow> month_text [a, b] \<longleftrightarrow> 1 \<le> num2 a b \<and> num2 a b \<le> 12"
  by (auto simp: month_text_def num2_def ascii_digit_def)

lemma year_text_ascii:
  "ascii_digit a \<Longrightarrow> ascii_digit b \<Longrightarrow> ascii_digit c \<Longrightarrow> ascii_digit d \<Longrightarrow>
   year_text [a, b, c, d]"
  by (simp add: year_text_def isdecimal_ascii)

lemma ascii_digit_not_dot: "ascii_digit a \<Longrightarrow> a \<noteq> 46"
  by (simp add: ascii_digit_def)

lemma Birthday_iff:
  "Birthday v = Inr dt \<longleftrightarrow>
     (\<exists>D M Y d m y. v = D @ 46 # M @ 46 # Y \<and> day_text D \<and> month_text M \<and> year_text Y \<and>
        py_int D = Some d \<and> py_int M = Some m \<and> py_int Y = Some y \<and>
        1 \<le> y \<and> y \<le> 9999 \<and> 1 \<le> m \<and> m \<le> 12 \<and> 1 \<le> d \<and> d \<le> days_in_month y m \<and>
        dt = \<lparr>year = y, month = m, day = d\<rparr>)"
  unfolding Birthday_Inr strptime_dmY_iff datetime_new_iff by blast

lemma Birthday_ascii:
  assumes "ascii_digit a" "ascii_digit b" "ascii_digit c" "ascii_digit d"
    "ascii_digit e" "ascii_digit f" "ascii_digit g" "ascii_digit h"
  shows "Birthday [a, b, 46, c, d, 46, e, f, g, h] = Inr dt \<longleftrightarrow>
     dt = \<lparr>year = num4 e f g h, month = num2 c d, day = num2 a b\<rparr> \<and>
     1 \<le> num4 e f g h \<and> 1 \<le> num2 c d \<and> num2 c d \<le> 12 \<and>
     1 \<le> num2 a b \<and> num2 a b \<le> days_in_month (num4 e f g h) (num2 c d)"
    (is "?B \<longleftrightarrow> ?V")
proof
  assume ?B
  then obtain D M Y dd mm yy where
    v: "[a, b, 46, c, d, 46, e, f, g, h] = D @ 46 # M @ 46 # Y" and
    t: "day_text D" "month_text M" "year_text Y" and
    n: "py_int D = Some dd" "py_int M = Some mm" "py_int Y = Some yy" and
    r: "1 \<le> yy" "yy \<le> 9999" "1 \<le> mm" "mm \<le> 12" "1 \<le> dd" "dd \<le> days_in_month yy mm" and
    dt: "dt = \<lparr>year = yy, month = mm, day = dd\<rparr>"
    unfolding Birthday_iff by blast
  have "[a, b] @ 46 # [c, d, 46, e, f, g, h] = D @ 46 # (M @ 46 # Y)"
    using v by simp
  then have D: "[a, b] = D" and v': "[c, d] @ 46 # [e, f, g, h] = M @ 46 # Y"
    using split_at_dot_unique [of "[a, b]" "[c, d, 46, e, f, g, h]" D "M @ 46 # Y"]
      assms(1,2) t(1)
    by (auto dest: day_text_no_dot ascii_digit_not_dot)
  from v' have M: "[c, d] = M" and Y: "[e, f, g, h] = Y"
    using split_at_dot_unique [of "[c, d]" "[e, f, g, h]" M Y] assms(3,4) t(2)
    by (auto dest: month_text_no_dot ascii_digit_not_dot)
  have "dd = num2 a b" "mm = num2 c d" "yy = num4 e f g h"
    using n assms by (simp_all add: D [symmetric] M [symmetric] Y [symmetric] py_int2 py_int4)
  with r dt show ?V by simp
next
  assume V: ?V
  then have "num2 a b \<le> 31"
    using days_in_month_le [of "num2 c d" "num4 e f g h"] by simp
  with V have t: "day_text [a, b]" "month_text [c, d]" "year_text [e, f, g, h]"
    using assms by (simp_all add: day_text_ascii month_text_ascii year_text_ascii)
  have n: "py_int [a, b] = Some (num2 a b)" "py_int [c, d] = Some (num2 c d)"
    "py_int [e, f, g, h] = Some (num4 e f g h)"
    using assms by (simp_all add: py_int2 py_int4)
  have y: "num4 e f g h \<le> 9999"
    using assms(5-8) by (rule num4_bounds(1))
  have v: "[a, b, 46, c, d, 46, e, f, g, h] = [a, b] @ 46 # [c, d] @ 46 # [e, f, g, h]"
    by simp
  show ?B
    unfolding Birthday_iff using v t n y V by blast
qed

lemma strftime_ascii:
  assumes "ascii_digit a" "ascii_digit b" "ascii_digit c" "ascii_digit d"
    "ascii_digit e" "ascii_digit f" "ascii_digit g" "ascii_digit h"
    and "pads_year pf \<or> 1000 \<le> num4 e f g h"
  shows "strftime_dmY pf \<lparr>year = num4 e f g h, month = num2 c d, day = num2 a b\<rparr> =
         [a, b, 46, c, d, 46, e, f, g, h]"
  using assms
  by (auto simp: strftime_dmY_def num2_digits num4_digits num4_digits_padded)

lemma dd_mm_yyyy_shape:
  assumes "dd_mm_yyyy v"
  shows "v = [v ! 0, v ! 1, 46, v ! 3, v ! 4, 46, v ! 6, v ! 7, v ! 8, v ! 9]"
    and "ascii_digit (v ! 0)" "ascii_digit (v ! 1)" "ascii_digit (v ! 3)" "ascii_digit (v ! 4)"
    and "ascii_digit (v ! 6)" "ascii_digit (v ! 7)" "ascii_digit (v ! 8)" "ascii_digit (v ! 9)"
proof -
  from assms have "length v = 10" "v ! 2 = 46" "v ! 5 = 46"
    by (simp_all add: dd_mm_yyyy_def)
  with ten_chars [of v] show "v = [v ! 0, v ! 1, 46, v ! 3, v ! 4, 46, v ! 6, v ! 7, v ! 8, v ! 9]"
    by simp
  from assms show "ascii_digit (v ! 0)" "ascii_digit (v ! 1)" "ascii_digit (v ! 3)"
    "ascii_digit (v ! 4)" "ascii_digit (v ! 6)" "ascii_digit (v ! 7)" "ascii_digit (v ! 8)"
    "ascii_digit (v ! 9)"
    by (simp_all add: dd_mm_yyyy_def)
qed

lemmas eval_date =
  Birthday_def strptime_dmY_def re_match_dmY_def re_d_def re_m_def re_Y_def rx_match.simps
  consumed_def py_int_def datetime_new_def days_in_month_def is_leap_def

section \<open>Phone\<close>

text \<open>
  C4, as the claim states it, fails: a string of ten superscript twos (U+00B2) has ten
  characters and \<open>str.isdigit\<close> accepts it, so \<open>Phone\<close> stores it, yet none of its
  characters is a decimal digit, of ASCII or of any other script.
\<close>

theorem phone_accepts_superscript_digits:
  "Phone [178, 178, 178, 178, 178, 178, 178, 178, 178, 178] =
     Inr [178, 178, 178, 178, 178, 178, 178, 178, 178, 178] \<and>
   length [178, 178, 178, 178, 178, 178, 178, 178, 178, 178 :: nat] = 10 \<and>
   \<not> isdecimal_cp 178 \<and> \<not> ascii_digit 178"
  by (simp add: Phone_def eval_digits)

text \<open>
  C4, amended. Constructing a \<open>Phone\<close> succeeds if and only if the string has exactly 10
  characters and each of them is a digit for \<open>str.isdigit\<close>, that is a character with a
  Unicode digit value: the decimal digits of every script, among them \<open>0\<close>..\<open>9\<close>, and other
  digit characters such as the superscript two. On success the stored value is the input;
  on every other input the construction fails with the message
  \<open>Phone number must be a 10-digit number.\<close>
\<close>

theorem phone_ten_digit_characters:
  "(Phone v = Inr v \<longleftrightarrow> length v = 10 \<and> (\<forall>c \<in> set v. isdigit_cp c)) \<and>
   (\<not> (length v = 10 \<and> (\<forall>c \<in> set v. isdigit_cp c)) \<longrightarrow>
      Phone v = Inl (ValueError (lit ''Phone number must be a 10-digit number.''))) \<and>
   (\<forall>p. Phone v = Inr p \<longrightarrow> p = v) \<and>
   (length v = 10 \<and> (\<forall>c \<in> set v. ascii_digit c) \<longrightarrow> Phone v = Inr v) \<and>
   (ascii_digit c \<longrightarrow> isdecimal_cp c) \<and>
   (isdecimal_cp c \<longrightarrow> isdigit_cp c)"
proof -
  have dig: "isdecimal_cp c" if "ascii_digit c" for c
    using that by (simp add: ascii_digit_def isdecimal_cp_def decimal_value_def decimal_zeros_def)
  have sub: "isdigit_cp c" if "isdecimal_cp c" for c
    using that by (simp add: isdigit_cp_def)
  have ok: "Phone v = Inr v \<longleftrightarrow> length v = 10 \<and> (\<forall>c \<in> set v. isdigit_cp c)"
    by (auto simp: Phone_def isdigit_def list_all_iff)
  have bad: "Phone v = Inl (ValueError (lit ''Phone number must be a 10-digit number.''))"
    if "\<not> (length v = 10 \<and> (\<forall>c \<in> set v. isdigit_cp c))"
    using that by (auto simp: Phone_def isdigit_def list_all_iff)
  have val: "\<forall>p. Phone v = Inr p \<longrightarrow> p = v"
    by (simp add: Phone_def)
  have ascii: "Phone v = Inr v" if "length v = 10 \<and> (\<forall>c \<in> set v. ascii_digit c)"
    using that dig sub by (simp add: ok)
  from ok bad val ascii dig sub show ?thesis by blast
qed

theorem phone_ten_digit_characters_witness:
  "Phone (lit ''1234567890'') = Inr (lit ''1234567890'') \<and>
   Phone (lit ''12345'') = Inl (ValueError (lit ''Phone number must be a 10-digit number.'')) \<and>
   Phone (lit ''12345abcde'') = Inl (ValueError (lit ''Phone number must be a 10-digit number.'')) \<and>
   isdecimal_cp 53 \<and> isdigit_cp 53"
proof -
  have a: "length (lit ''1234567890'') = 10 \<and> (\<forall>c \<in> set (lit ''1234567890''). ascii_digit c)"
    by (simp add: lit_def ascii_digit_def)
  have b: "\<not> (length (lit ''12345'') = 10 \<and> (\<forall>c \<in> set (lit ''12345''). isdigit_cp c))"
    by (simp add: lit_def)
  have c: "\<not> (length (lit ''12345abcde'') = 10 \<and> (\<forall>c \<in> set (lit ''12345abcde''). isdigit_cp c))"
    by (simp add: lit_def eval_digits)
  have d: "ascii_digit 53"
    by (simp add: ascii_digit_def)
  show ?thesis
    using phone_ten_digit_characters [of "lit ''1234567890''" 53]
      phone_ten_digit_characters [of "lit ''12345''" 53]
      phone_ten_digit_characters [of "lit ''12345abcde''" 53] a b c d
    by blast
qed

section \<open>Birthday\<close>

text \<open>
  C5, as the claim states it, fails: \<open>1.2.1990\<close> has a one-digit day and a one-digit month,
  yet \<open>Birthday\<close> accepts it, as the first of February 1990; formatted back, the stored date
  reads \<open>01.02.1990\<close>, which is not the input. For \<open>strptime\<close> the leading zero of \<open>%d\<close> and
  \<open>%m\<close> is optional.
\<close>

theorem birthday_accepts_one_digit_day_and_month:
  "Birthday (lit ''1.2.1990'') = Inr \<lparr>year = 1990, month = 2, day = 1\<rparr> \<and>
   \<not> dd_mm_yyyy (lit ''1.2.1990'') \<and>
   strftime_dmY example_platform \<lparr>year = 1990, month = 2, day = 1\<rparr> = lit ''01.02.1990'' \<and>
   lit ''01.02.1990'' \<noteq> lit ''1.2.1990''"
  by (simp add: eval_date eval_digits lit_def dd_mm_yyyy_def strftime_dmY_def zfill_def dec.simps
      example_platform_def)

text \<open>
  C5, amended. Constructing a \<open>Birthday\<close> succeeds exactly when the string is a day, a dot,
  a month, a dot and a year, where the day is written \<open>1\<close>..\<open>9\<close>, \<open>01\<close>..\<open>31\<close> or with a space in
  place of the leading zero, the month is written \<open>1\<close>..\<open>9\<close> or \<open>01\<close>..\<open>12\<close>, the year is written
  with exactly four decimal digits (\<open>day_text\<close>, \<open>month_text\<close>, \<open>year_text\<close>), and the three
  numbers are a date of the calendar with a year from 1 to 9999; the stored value is that
  date. Every other string fails with the message \<open>Invalid date format. Use DD.MM.YYYY\<close>.
  In particular a string of the exact form \<open>DD.MM.YYYY\<close> (digits \<open>0\<close>..\<open>9\<close>) is accepted
  exactly when it is a date of the calendar with a year of at least 1, and formatting the
  stored date back yields the same string when the year is at least 1000 or the platform
  pads \<open>%Y\<close> to four digits.
\<close>

theorem birthday_day_month_year:
  "(Birthday v = Inr dt \<longleftrightarrow>
      (\<exists>D M Y d m y. v = D @ 46 # M @ 46 # Y \<and> day_text D \<and> month_text M \<and> year_text Y \<and>
         py_int D = Some d \<and> py_int M = Some m \<and> py_int Y = Some y \<and>
         1 \<le> y \<and> y \<le> 9999 \<and> 1 \<le> m \<and> m \<le> 12 \<and> 1 \<le> d \<and> d \<le> days_in_month y m \<and>
         dt = \<lparr>year = y, month = m, day = d\<rparr>)) \<and>
   ((\<exists>dt'. Birthday v = Inr dt') \<or>
    Birthday v = Inl (ValueError (lit ''Invalid date format. Use DD.MM.YYYY''))) \<and>
   (dd_mm_yyyy v \<longrightarrow>
      (Birthday v = Inr dt \<longleftrightarrow>
         dt = \<lparr>year = num4 (v ! 6) (v ! 7) (v ! 8) (v ! 9), month = num2 (v ! 3) (v ! 4),
               day = num2 (v ! 0) (v ! 1)\<rparr> \<and>
         1 \<le> year dt \<and> 1 \<le> month dt \<and> month dt \<le> 12 \<and>
         1 \<le> day dt \<and> day dt \<le> days_in_month (year dt) (month dt))) \<and>
   (dd_mm_yyyy v \<and> Birthday v = Inr dt \<and> (pads_year pf \<or> 1000 \<le> year dt) \<longrightarrow>
      strftime_dmY pf dt = v)"
proof -
  have ascii: "Birthday v = Inr dt \<longleftrightarrow>
         dt = \<lparr>year = num4 (v ! 6) (v ! 7) (v ! 8) (v ! 9), month = num2 (v ! 3) (v ! 4),
               day = num2 (v ! 0) (v ! 1)\<rparr> \<and>
         1 \<le> year dt \<and> 1 \<le> month dt \<and> month dt \<le> 12 \<and>
         1 \<le> day dt \<and> day dt \<le> days_in_month (year dt) (month dt)"
    if p: "dd_mm_yyyy v"
  proof -
    note s = dd_mm_yyyy_shape [OF p]
    have "Birthday [v ! 0, v ! 1, 46, v ! 3, v ! 4, 46, v ! 6, v ! 7, v ! 8, v ! 9] = Inr dt \<longleftrightarrow>
       dt = \<lparr>year = num4 (v ! 6) (v ! 7) (v ! 8) (v ! 9), month = num2 (v ! 3) (v ! 4),
             day = num2 (v ! 0) (v ! 1)\<rparr> \<and>
       1 \<le> num4 (v ! 6) (v ! 7) (v ! 8) (v ! 9) \<and> 1 \<le> num2 (v ! 3) (v ! 4) \<and>
       num2 (v ! 3) (v ! 4) \<le> 12 \<and> 1 \<le> num2 (v ! 0) (v ! 1) \<and>
       num2 (v ! 0) (v ! 1) \<le> days_in_month (num4 (v ! 6) (v ! 7) (v ! 8) (v ! 9)) (num2 (v ! 3) (v ! 4))"
      using s(2-9) by (rule Birthday_ascii)
    then show ?thesis
      unfolding s(1) [symmetric] by auto
  qed
  have again: "strftime_dmY pf dt = v"
    if p: "dd_mm_yyyy v" and b: "Birthday v = Inr dt" and y: "pads_year pf \<or> 1000 \<le> year dt"
  proof -
    note s = dd_mm_yyyy_shape [OF p]
    from b have dt: "dt = \<lparr>year = num4 (v ! 6) (v ! 7) (v ! 8) (v ! 9),
        month = num2 (v ! 3) (v ! 4), day = num2 (v ! 0) (v ! 1)\<rparr>"
      unfolding ascii [OF p] by simp
    with y have "pads_year pf \<or> 1000 \<le> num4 (v ! 6) (v ! 7) (v ! 8) (v ! 9)"
      by simp
    with s(2-9) have "strftime_dmY pf dt =
        [v ! 0, v ! 1, 46, v ! 3, v ! 4, 46, v ! 6, v ! 7, v ! 8, v ! 9]"
      unfolding dt by (rule strftime_ascii)
    with s(1) show ?thesis by simp
  qed
  from Birthday_iff [of v dt] Birthday_cases [of v] ascii again show ?thesis
    by blast
qed

theorem birthday_day_month_year_witness:
  "Birthday (lit ''29.02.2000'') = Inr \<lparr>year = 2000, month = 2, day = 29\<rparr> \<and>
   strftime_dmY example_platform \<lparr>year = 2000, month = 2, day = 29\<rparr> = lit ''29.02.2000'' \<and>
   Birthday (lit ''29.02.1900'') = Inl (ValueError (lit ''Invalid date format. Use DD.MM.YYYY''))"
proof -
  have p: "dd_mm_yyyy (lit ''29.02.2000'')" "dd_mm_yyyy (lit ''29.02.1900'')"
    by (simp_all add: dd_mm_yyyy_def lit_def ascii_digit_def)
  have n: "num4 (lit ''29.02.2000'' ! 6) (lit ''29.02.2000'' ! 7) (lit ''29.02.2000'' ! 8)
        (lit ''29.02.2000'' ! 9) = 2000"
    "num2 (lit ''29.02.2000'' ! 3) (lit ''29.02.2000'' ! 4) = 2"
    "num2 (lit ''29.02.2000'' ! 0) (lit ''29.02.2000'' ! 1) = 29"
    "num4 (lit ''29.02.1900'' ! 6) (lit ''29.02.1900'' ! 7) (lit ''29.02.1900'' ! 8)
        (lit ''29.02.1900'' ! 9) = 1900"
    "num2 (lit ''29.02.1900'' ! 3) (lit ''29.02.1900'' ! 4) = 2"
    "num2 (lit ''29.02.1900'' ! 0) (lit ''29.02.1900'' ! 1) = 29"
    by (simp_all add: lit_def num2_def num4_def)
  have d: "days_in_month 2000 2 = 29" "days_in_month 1900 2 = 28"
    by (simp_all add: days_in_month_def is_leap_def)
  note t1 = birthday_day_month_year
    [of "lit ''29.02.2000''" "\<lparr>year = 2000, month = 2, day = 29\<rparr>" example_platform]
  have a: "Birthday (lit ''29.02.2000'') = Inr \<lparr>year = 2000, month = 2, day = 29\<rparr>"
    using t1 [THEN conjunct2, THEN conjunct2, THEN conjunct1, THEN mp, OF p(1)]
    by (simp add: n d del: One_nat_def)
  have b: "strftime_dmY example_platform \<lparr>year = 2000, month = 2, day = 29\<rparr> = lit ''29.02.2000''"
    using t1 [THEN conjunct2, THEN conjunct2, THEN conjunct2] p(1) a by simp
  have c: "Birthday (lit ''29.02.1900'') \<noteq> Inr dt" for dt
    using birthday_day_month_year [of "lit ''29.02.1900''" dt example_platform,
        THEN conjunct2, THEN conjunct2, THEN conjunct1, THEN mp, OF p(2)]
    by (auto simp add: n d simp del: One_nat_def)
  have "Birthday (lit ''29.02.1900'') = Inl (ValueError (lit ''Invalid date format. Use DD.MM.YYYY''))"
    using birthday_day_month_year
      [of "lit ''29.02.1900''" "\<lparr>year = 2000, month = 2, day = 29\<rparr>" example_platform,
        THEN conjunct2, THEN conjunct1] c
    by blast
  with a b show ?thesis by simp
qed

section \<open>Adding a phone to a record\<close>

text \<open>
  C6, as the claim states it, fails: on a record without phones the value \<open>abc\<close> equals no
  existing phone, yet it is not appended; \<open>add_phone\<close> fails with the message of the
  \<open>Phone\<close> validation and the record stays without phones.
\<close>

theorem add_phone_malformed_not_appended:
  "lit ''abc'' \<notin> set (phones (Record_init (lit ''Bob''))) \<and>
   Record_add_phone (Record_init (lit ''Bob'')) (lit ''abc'') =
     (Inl (ValueError (lit ''Phone number must be a 10-digit number.'')),
      Record_init (lit ''Bob'')) \<and>
   phones (Record_init (lit ''Bob'')) = []"
  by (simp add: Record_add_phone_def Record_init_def Phone_def lit_def)

text \<open>
  C6, amended. \<open>add_phone\<close> fails with the message \<open>Phone number already exists.\<close> exactly
  when some existing phone equals the input by string equality, and then the phone list
  is unchanged. Otherwise, when the value passes the \<open>Phone\<close> validation, it is appended at
  the end and the phones before it keep their order; when it does not pass, \<open>add_phone\<close>
  fails with the message \<open>Phone number must be a 10-digit number.\<close> and the phone list is
  unchanged. Adding the same valid value twice fails on the second call, which leaves the
  list as the first call left it: of length 1 on a new record.
\<close>

theorem add_phone_duplicate_or_append:
  "(fst (Record_add_phone r v) = Inl (ValueError (lit ''Phone number already exists.'')) \<longleftrightarrow>
      v \<in> set (phones r)) \<and>
   (v \<in> set (phones r) \<longrightarrow> snd (Record_add_phone r v) = r) \<and>
   (v \<notin> set (phones r) \<and> Phone v = Inr v \<longrightarrow>
      Record_add_phone r v = (Inr (), r\<lparr>phones := phones r @ [v]\<rparr>)) \<and>
   (v \<notin> set (phones r) \<and> Phone v \<noteq> Inr v \<longrightarrow>
      Record_add_phone r v =
        (Inl (ValueError (lit ''Phone number must be a 10-digit number.'')), r)) \<and>
   (v \<notin> set (phones r) \<and> Phone v = Inr v \<longrightarrow>
      Record_add_phone (snd (Record_add_phone r v)) v =
        (Inl (ValueError (lit ''Phone number already exists.'')),
         r\<lparr>phones := phones r @ [v]\<rparr>)) \<and>
   (Phone v = Inr v \<longrightarrow>
      phones (snd (Record_add_phone (snd (Record_add_phone (Record_init nm) v)) v)) = [v])"
proof -
  have msgs: "lit ''Phone number must be a 10-digit number.'' \<noteq> lit ''Phone number already exists.''"
    by (simp add: lit_def)
  have dup: "Record_add_phone r v = (Inl (ValueError (lit ''Phone number already exists.'')), r)"
    if "v \<in> set (phones r)" for r
    using that by (simp add: Record_add_phone_def phone_exists_iff)
  have new: "Record_add_phone r v = (Inr (), r\<lparr>phones := phones r @ [v]\<rparr>)"
    if "v \<notin> set (phones r)" "Phone v = Inr v" for r
    using that by (simp add: Record_add_phone_def phone_exists_iff)
  have bad: "Record_add_phone r v =
        (Inl (ValueError (lit ''Phone number must be a 10-digit number.'')), r)"
    if "v \<notin> set (phones r)" "Phone v \<noteq> Inr v"
    using that Phone_cases [of v] by (auto simp: Record_add_phone_def phone_exists_iff)
  have iff: "fst (Record_add_phone r v) = Inl (ValueError (lit ''Phone number already exists.''))
      \<longleftrightarrow> v \<in> set (phones r)"
  proof (cases "v \<in> set (phones r)")
    case True
    then show ?thesis by (simp add: dup)
  next
    case False
    then show ?thesis
      using Phone_cases [of v] msgs by (auto simp: new bad)
  qed
  have twice: "Record_add_phone (snd (Record_add_phone r v)) v =
        (Inl (ValueError (lit ''Phone number already exists.'')), r\<lparr>phones := phones r @ [v]\<rparr>)"
    if "v \<notin> set (phones r)" "Phone v = Inr v" for r
    using that by (simp add: new dup)
  have fresh: "phones (snd (Record_add_phone (snd (Record_add_phone (Record_init nm) v)) v)) = [v]"
    if "Phone v = Inr v"
    using that twice [of "Record_init nm"] by (simp add: Record_init_def)
  from iff dup new bad twice fresh show ?thesis by simp
qed

theorem add_phone_duplicate_or_append_witness:
  "Record_add_phone (Record_init (lit ''Bob'')) (lit ''1234567890'') =
     (Inr (), \<lparr>name = lit ''Bob'', phones = [lit ''1234567890''], birthday = None\<rparr>) \<and>
   Record_add_phone \<lparr>name = lit ''Bob'', phones = [lit ''1234567890''], birthday = None\<rparr>
       (lit ''1234567890'') =
     (Inl (ValueError (lit ''Phone number already exists.'')),
      \<lparr>name = lit ''Bob'', phones = [lit ''1234567890''], birthday = None\<rparr>)"
proof -
  have p: "Phone (lit ''1234567890'') = Inr (lit ''1234567890'')"
    by (simp add: Phone_def eval_digits lit_def)
  have n: "lit ''1234567890'' \<notin> set (phones (Record_init (lit ''Bob'')))"
    by (simp add: Record_init_def)
  note t = add_phone_duplicate_or_append [of "Record_init (lit ''Bob'')" "lit ''1234567890''"]
  have first: "Record_add_phone (Record_init (lit ''Bob'')) (lit ''1234567890'') =
     (Inr (), (Record_init (lit ''Bob''))\<lparr>phones := phones (Record_init (lit ''Bob'')) @ [lit ''1234567890'']\<rparr>)"
    using t p n by blast
  have second: "Record_add_phone (snd (Record_add_phone (Record_init (lit ''Bob'')) (lit ''1234567890'')))
       (lit ''1234567890'') =
     (Inl (ValueError (lit ''Phone number already exists.'')),
      (Record_init (lit ''Bob''))\<lparr>phones := phones (Record_init (lit ''Bob'')) @ [lit ''1234567890'']\<rparr>)"
    using t p n by blast
  have r: "(Record_init (lit ''Bob''))\<lparr>phones := phones (Record_init (lit ''Bob'')) @ [lit ''1234567890'']\<rparr> =
      \<lparr>name = lit ''Bob'', phones = [lit ''1234567890''], birthday = None\<rparr>"
    by (simp add: Record_init_def Name_def)
  from first second show ?thesis unfolding r by simp
qed

section \<open>Finding a record\<close>




section \<open>The add handler\<close>

text \<open>
  C8, as the claim states it, fails: for a name that no record has and the phone \<open>123\<close>, a
  new record is created and added, but the result is the error string of the \<open>Phone\<close>
  validation, not \<open>Contact added. Phone number: 123\<close>.
\<close>

theorem add_new_contact_malformed_phone:
  "AddressBook_find example_platform AddressBook_init (lit ''Bob'') = None \<and>
   fst (add_contact example_platform [lit ''Bob'', lit ''123''] AddressBook_init) =
     Str (lit ''Error: Phone number must be a 10-digit number.'') \<and>
   fst (add_contact example_platform [lit ''Bob'', lit ''123''] AddressBook_init) \<noteq>
     Str (lit ''Contact added. Phone number: 123'')"
  by (simp add: add_contact_def eval_book eval_strings)

text \<open>
  C8, amended. For the add handler with at least two arguments (name, phone; the rest is
  ignored) and a phone that passes the \<open>Phone\<close> validation: if no record has the name, a new
  record with that name and this one phone is added at the end of the book and the result
  is \<open>Contact added. Phone number: <phone>\<close>; if a record has the name and does not hold
  the phone yet, the phone is appended to its phones, so that it holds the old ones and the
  new one, and the result is \<open>Contact updated. Phone number: <phone>\<close>. With fewer than two
  arguments the usage string is returned and the book is unchanged.
\<close>

theorem add_contact_adds_or_updates:
  "(AddressBook_find pf book nm = None \<and> Phone phone = Inr phone \<longrightarrow>
      add_contact pf (nm # phone # extra) book =
        (Str (lit ''Contact added. Phone number: '' @ phone),
         AddressBook_add_record book \<lparr>name = nm, phones = [phone], birthday = None\<rparr>)) \<and>
   (AddressBook_find pf book nm = Some i \<and> Phone phone = Inr phone \<and>
    phone \<notin> set (phones (contacts book ! i)) \<longrightarrow>
      add_contact pf (nm # phone # extra) book =
        (Str (lit ''Contact updated. Phone number: '' @ phone),
         set_record book i
           ((contacts book ! i)\<lparr>phones := phones (contacts book ! i) @ [phone]\<rparr>))) \<and>
   (length args < 2 \<longrightarrow>
      add_contact pf args book =
        (Str (lit ''Invalid command. Use 'add [name] [phone]'.''), book))"
proof (intro conjI impI)
  assume h: "AddressBook_find pf book nm = None \<and> Phone phone = Inr phone"
  then have ne: "phone \<noteq> []" by (auto simp: Phone_def split: if_splits)
  have "add_contact_body pf (nm # phone # extra, book) =
          (Inr (Str (lit ''Contact added.'' @ lit '' Phone number: '' @ phone)),
           AddressBook_add_record book \<lparr>name = nm, phones = [phone], birthday = None\<rparr>)"
    using h ne
    by (simp add: AddressBook_add_record_def Record_init_def Name_def Record_add_phone_def
        set_record_def)
  then have "add_contact pf (nm # phone # extra) book =
          (Str (lit ''Contact added.'' @ lit '' Phone number: '' @ phone),
           AddressBook_add_record book \<lparr>name = nm, phones = [phone], birthday = None\<rparr>)"
    unfolding add_contact_def by (rule input_error_return)
  then show "add_contact pf (nm # phone # extra) book =
        (Str (lit ''Contact added. Phone number: '' @ phone),
         AddressBook_add_record book \<lparr>name = nm, phones = [phone], birthday = None\<rparr>)"
    by (simp add: lit_def)
next
  assume h: "AddressBook_find pf book nm = Some i \<and> Phone phone = Inr phone \<and>
    phone \<notin> set (phones (contacts book ! i))"
  then have ne: "phone \<noteq> []" by (auto simp: Phone_def split: if_splits)
  have "add_contact_body pf (nm # phone # extra, book) =
          (Inr (Str (lit ''Contact updated.'' @ lit '' Phone number: '' @ phone)),
           set_record book i
             ((contacts book ! i)\<lparr>phones := phones (contacts book ! i) @ [phone]\<rparr>))"
    using h ne by (simp add: Record_add_phone_def phone_exists_iff)
  then have "add_contact pf (nm # phone # extra) book =
          (Str (lit ''Contact updated.'' @ lit '' Phone number: '' @ phone),
           set_record book i
             ((contacts book ! i)\<lparr>phones := phones (contacts book ! i) @ [phone]\<rparr>))"
    unfolding add_contact_def by (rule input_error_return)
  then show "add_contact pf (nm # phone # extra) book =
        (Str (lit ''Contact updated. Phone number: '' @ phone),
         set_record book i
           ((contacts book ! i)\<lparr>phones := phones (contacts book ! i) @ [phone]\<rparr>))"
    by (simp add: lit_def)
next
  assume "length args < 2"
  then have "add_contact_body pf (args, book) =
          (Inr (Str (lit ''Invalid command. Use 'add [name] [phone]'.'')), book)"
    by (cases "(pf, (args, book))" rule: add_contact_body.cases) simp_all
  then show "add_contact pf args book =
        (Str (lit ''Invalid command. Use 'add [name] [phone]'.''), book)"
    unfolding add_contact_def by (rule input_error_return)
qed

theorem add_contact_adds_or_updates_witness:
  "add_contact example_platform [lit ''John'', lit ''1234567890''] AddressBook_init =
     (Str (lit ''Contact added. Phone number: 1234567890''),
      \<lparr>contacts = [\<lparr>name = lit ''John'', phones = [lit ''1234567890''], birthday = None\<rparr>]\<rparr>) \<and>
   add_contact example_platform [lit ''John'', lit ''0987654321'']
      \<lparr>contacts = [\<lparr>name = lit ''John'', phones = [lit ''1234567890''], birthday = None\<rparr>]\<rparr> =
     (Str (lit ''Contact updated. Phone number: 0987654321''),
      \<lparr>contacts = [\<lparr>name = lit ''John'', phones = [lit ''1234567890'', lit ''0987654321''],
                    birthday = None\<rparr>]\<rparr>) \<and>
   add_contact example_platform [lit ''John''] AddressBook_init =
     (Str (lit ''Invalid command. Use 'add [name] [phone]'.''), AddressBook_init)"
proof -
  let ?b = "\<lparr>contacts = [\<lparr>name = lit ''John'', phones = [lit ''1234567890''], birthday = None\<rparr>]\<rparr>"
  have f0: "AddressBook_find example_platform AddressBook_init (lit ''John'') = None"
    by (simp add: eval_book)
  have f1: "AddressBook_find example_platform ?b (lit ''John'') = Some 0"
    by (simp add: eval_book)
  have p1: "Phone (lit ''1234567890'') = Inr (lit ''1234567890'')"
    by (simp add: Phone_def eval_digits lit_def)
  have p2: "Phone (lit ''0987654321'') = Inr (lit ''0987654321'')"
    by (simp add: Phone_def eval_digits lit_def)
  have n: "lit ''0987654321'' \<notin> set (phones (contacts ?b ! 0))"
    by (simp add: lit_def)
  have a: "add_contact example_platform [lit ''John'', lit ''1234567890''] AddressBook_init =
        (Str (lit ''Contact added. Phone number: '' @ lit ''1234567890''),
         AddressBook_add_record AddressBook_init
           \<lparr>name = lit ''John'', phones = [lit ''1234567890''], birthday = None\<rparr>)"
    using add_contact_adds_or_updates
      [of example_platform AddressBook_init "lit ''John''" "lit ''1234567890''" "[]" 0 "[]"] f0 p1
    by blast
  have b: "add_contact example_platform [lit ''John'', lit ''0987654321''] ?b =
        (Str (lit ''Contact updated. Phone number: '' @ lit ''0987654321''),
         set_record ?b 0
           ((contacts ?b ! 0)\<lparr>phones := phones (contacts ?b ! 0) @ [lit ''0987654321'']\<rparr>))"
    using add_contact_adds_or_updates
      [of example_platform ?b "lit ''John''" "lit ''0987654321''" "[]" 0 "[]"] f1 p2 n
    by blast
  have c: "add_contact example_platform [lit ''John''] AddressBook_init =
     (Str (lit ''Invalid command. Use 'add [name] [phone]'.''), AddressBook_init)"
    using add_contact_adds_or_updates
      [of example_platform AddressBook_init "lit ''John''" "lit ''1'' " "[]" 0 "[lit ''John'']"]
    by simp
  from a b c show ?thesis
    by (simp add: AddressBook_add_record_def AddressBook_init_def set_record_def lit_def)
qed

section \<open>The change handler\<close>

text \<open>
  C3. When the change handler is called with exactly two arguments, the name finds a record
  and the new phone fails the validation of \<open>Phone\<close>, the handler returns the error string
  and leaves that record with an empty phone list, whatever phones it held: the phones are
  cleared before the new one is validated. Nothing else in the book changes.
\<close>

theorem change_malformed_clears_phones:
  assumes "AddressBook_find pf book nm = Some i"
    and "Phone new_phone = Inl e"
  shows "change_contact pf [nm, new_phone] book =
           (Str (lit ''Error: Phone number must be a 10-digit number.''),
            set_record book i ((contacts book ! i)\<lparr>phones := []\<rparr>)) \<and>
         phones (contacts (snd (change_contact pf [nm, new_phone] book)) ! i) = []"
proof -
  have i: "i < length (contacts book)" using assms(1) by (rule find_less)
  have e: "e = ValueError (lit ''Phone number must be a 10-digit number.'')"
    using assms(2) by (rule Phone_Inl)
  have "change_contact_body pf ([nm, new_phone], book) =
          (Inl e, set_record book i ((contacts book ! i)\<lparr>phones := []\<rparr>))"
    using assms i by (simp add: set_record_def Record_add_phone_def)
  then have "change_contact pf [nm, new_phone] book =
           (Str (lit ''Error: '' @ lit ''Phone number must be a 10-digit number.''),
            set_record book i ((contacts book ! i)\<lparr>phones := []\<rparr>))"
    unfolding change_contact_def e by (rule input_error_raise)
  then show ?thesis using i by (simp add: set_record_def lit_def)
qed

theorem change_malformed_clears_phones_witness:
  "phones (contacts john_book ! 0) = [lit ''1234567890''] \<and>
   change_contact example_platform [lit ''john'', lit ''12ab''] john_book =
     (Str (lit ''Error: Phone number must be a 10-digit number.''),
      \<lparr>contacts = [\<lparr>name = lit ''John'', phones = [],
                    birthday = Some \<lparr>year = 1990, month = 2, day = 1\<rparr>\<rparr>]\<rparr>)"
proof -
  have f: "AddressBook_find example_platform john_book (lit ''john'') = Some 0"
    by (simp add: eval_book eval_strings)
  have p: "Phone (lit ''12ab'') = Inl (ValueError (lit ''Phone number must be a 10-digit number.''))"
    by (simp add: Phone_def lit_def)
  show ?thesis
    using change_malformed_clears_phones [OF f p]
    by (simp add: john_book_def set_record_def)
qed

text \<open>
  C9. When the change handler is called with exactly two arguments, the name finds a record
  and the new phone is a valid phone, the record's phone list becomes the single new phone,
  whatever phones it held before. When the name finds no record, no record is created: the
  book is unchanged and the not-found message is returned.
\<close>

theorem change_valid_replaces_phones:
  "(AddressBook_find pf book nm = Some i \<and> Phone new_phone = Inr new_phone \<longrightarrow>
      change_contact pf [nm, new_phone] book =
        (Str (lit ''Phone number changed for '' @ nm @ lit ''.''),
         set_record book i ((contacts book ! i)\<lparr>phones := [new_phone]\<rparr>)) \<and>
      phones (contacts (snd (change_contact pf [nm, new_phone] book)) ! i) = [new_phone]) \<and>
   (AddressBook_find pf book nm = None \<longrightarrow>
      change_contact pf [nm, new_phone] book =
        (Str (lit ''Contact '' @ nm @ lit '' not found.''), book))"
proof (intro conjI impI)
  assume h: "AddressBook_find pf book nm = Some i \<and> Phone new_phone = Inr new_phone"
  then have i: "i < length (contacts book)" by (blast intro: find_less)
  have "change_contact_body pf ([nm, new_phone], book) =
          (Inr (Str (lit ''Phone number changed for '' @ nm @ lit ''.'')),
           set_record book i ((contacts book ! i)\<lparr>phones := [new_phone]\<rparr>))"
    using h i by (simp add: set_record_def Record_add_phone_def)
  then show r: "change_contact pf [nm, new_phone] book =
        (Str (lit ''Phone number changed for '' @ nm @ lit ''.''),
         set_record book i ((contacts book ! i)\<lparr>phones := [new_phone]\<rparr>))"
    unfolding change_contact_def by (rule input_error_return)
  show "phones (contacts (snd (change_contact pf [nm, new_phone] book)) ! i) = [new_phone]"
    using i by (simp add: r set_record_def)
next
  assume "AddressBook_find pf book nm = None"
  then have "change_contact_body pf ([nm, new_phone], book) =
          (Inr (Str (lit ''Contact '' @ nm @ lit '' not found.'')), book)"
    by simp
  then show "change_contact pf [nm, new_phone] book =
        (Str (lit ''Contact '' @ nm @ lit '' not found.''), book)"
    unfolding change_contact_def by (rule input_error_return)
qed

theorem change_valid_replaces_phones_witness:
  "change_contact example_platform [lit ''JOHN'', lit ''5555555555''] john_book =
     (Str (lit ''Phone number changed for JOHN.''),
      \<lparr>contacts = [\<lparr>name = lit ''John'', phones = [lit ''5555555555''],
                    birthday = Some \<lparr>year = 1990, month = 2, day = 1\<rparr>\<rparr>]\<rparr>) \<and>
   change_contact example_platform [lit ''Ghost'', lit ''5555555555''] john_book =
     (Str (lit ''Contact Ghost not found.''), john_book)"
proof -
  have f: "AddressBook_find example_platform john_book (lit ''JOHN'') = Some 0"
    by (simp add: eval_book eval_strings)
  have g: "AddressBook_find example_platform john_book (lit ''Ghost'') = None"
    by (simp add: eval_book eval_strings)
  have p: "Phone (lit ''5555555555'') = Inr (lit ''5555555555'')"
    by (simp add: Phone_def eval_digits lit_def)
  show ?thesis
    using change_valid_replaces_phones [of example_platform john_book "lit ''JOHN''" 0 "lit ''5555555555''"]
      change_valid_replaces_phones [of example_platform john_book "lit ''Ghost''" 0 "lit ''5555555555''"]
      f g p
    by (simp add: john_book_def set_record_def lit_def)
qed

section \<open>The query handlers\<close>

text \<open>
  C10. The query handlers \<open>phone\<close>, \<open>show-birthday\<close>, \<open>all\<close> and \<open>birthdays\<close> leave the
  address book as it was, for every book and every argument list: the book after the call
  is the book before it, with the same records in the same order, each with the same name,
  phones and birthday.
\<close>

theorem queries_leave_book_unchanged:
  "snd (show_phone pf args book) = book \<and>
   snd (show_birthday pf args book) = book \<and>
   snd (show_all_contacts book) = book \<and>
   snd (birthdays pf book) = book"
  by (simp add: show_phone_def show_birthday_def show_all_contacts_def birthdays_def
      snd_input_error show_phone_body_book show_birthday_body_book
      show_all_contacts_body_def birthdays_body_def)

theorem queries_leave_book_unchanged_witness:
  "show_phone example_platform [lit ''john''] john_book =
     (Str (lit ''john's phone number is: 1234567890''), john_book) \<and>
   snd (show_birthday example_platform [lit ''john''] john_book) = john_book \<and>
   show_all_contacts john_book = (Contacts (contacts john_book), john_book) \<and>
   birthdays example_platform john_book = (Str (lit ''John: 01.02.1990''), john_book)"
proof -
  have "fst (show_phone example_platform [lit ''john''] john_book) =
          Str (lit ''john's phone number is: 1234567890'')"
    by (simp add: show_phone_def eval_book eval_strings)
  moreover have "fst (show_all_contacts john_book) = Contacts (contacts john_book)"
    by (simp add: show_all_contacts_def show_all_contacts_body_def input_error_def)
  moreover have "fst (birthdays example_platform john_book) = Str (lit ''John: 01.02.1990'')"
    by (simp add: birthdays_def birthdays_body_def strftime_dmY_def zfill_def dec.simps
        eval_book eval_strings)
  ultimately show ?thesis
    using queries_leave_book_unchanged [of example_platform "[lit ''john'']" john_book]
    by (simp add: prod_eq_iff)
qed

section \<open>Errors and the state of the book\<close>

text \<open>
  C1, as the claim states it, fails: on an empty book, \<open>add Bob 12345\<close> returns the error
  string of the \<open>Phone\<close> validation, and the book then holds a record \<open>Bob\<close> without
  phones. The handler creates and adds the record before it validates the phone.
\<close>

theorem add_error_keeps_new_record:
  "add_contact example_platform [lit ''Bob'', lit ''12345''] AddressBook_init =
     (Str (lit ''Error: Phone number must be a 10-digit number.''),
      \<lparr>contacts = [\<lparr>name = lit ''Bob'', phones = [], birthday = None\<rparr>]\<rparr>) \<and>
   snd (add_contact example_platform [lit ''Bob'', lit ''12345''] AddressBook_init) \<noteq>
     AddressBook_init"
  by (simp add: add_contact_def eval_book eval_strings)

text \<open>
  C1, amended. When the add-birthday handler returns an error string, the book is exactly
  what it was before the call. When the add handler returns an error string and a record
  with the name existed before the call, the book is exactly what it was before the call.
  (Nothing is stated for a name that had no record.)
\<close>

theorem errors_leave_book_unchanged:
  "(fst (add_birthday pf args book) = Str (lit ''Error: '' @ m) \<longrightarrow>
      snd (add_birthday pf args book) = book) \<and>
   (fst (add_contact pf (nm # rest) book) = Str (lit ''Error: '' @ m) \<and>
    AddressBook_find pf book nm = Some i \<longrightarrow>
      snd (add_contact pf (nm # rest) book) = book)"
proof (intro conjI impI)
  assume "fst (add_birthday pf args book) = Str (lit ''Error: '' @ m)"
  have "snd (add_birthday_body pf (args, book)) = book"
  proof (cases "(pf, (args, book))" rule: add_birthday_body.cases)
    case (1 pf' nm' date book')
    show ?thesis
    proof (cases "AddressBook_find pf book nm'")
      case None
      with 1 show ?thesis by simp
    next
      case (Some j)
      then have j: "j < length (contacts book)" by (rule find_less)
      show ?thesis
      proof (cases "Birthday date")
        case (Inl e)
        with 1 Some j show ?thesis
          by (simp add: Record_add_birthday_def set_record_same)
      next
        case (Inr b)
        have "fst (add_birthday pf args book) =
                Str (lit ''Birthday added for '' @ nm' @ lit ''.'')"
          using 1 Some Inr
          by (simp add: add_birthday_def input_error_def Record_add_birthday_def)
        with \<open>fst (add_birthday pf args book) = Str (lit ''Error: '' @ m)\<close>
        show ?thesis by (simp add: lit_def)
      qed
    qed
  qed simp_all
  then show "snd (add_birthday pf args book) = book"
    by (simp add: add_birthday_def snd_input_error)
next
  assume h: "fst (add_contact pf (nm # rest) book) = Str (lit ''Error: '' @ m) \<and>
    AddressBook_find pf book nm = Some i"
  then have i: "i < length (contacts book)" by (blast intro: find_less)
  have "snd (add_contact_body pf (nm # rest, book)) = book"
  proof (cases rest)
    case Nil
    then show ?thesis by simp
  next
    case (Cons phone extra)
    show ?thesis
    proof (cases "fst (Record_add_phone (contacts book ! i) phone)")
      case (Inl e)
      then have "snd (Record_add_phone (contacts book ! i) phone) = contacts book ! i"
        by (auto simp: Record_add_phone_def split: if_splits sum.splits)
      with Cons h i Inl show ?thesis
        by (auto simp: set_record_same split: prod.splits sum.splits)
    next
      case (Inr u)
      have "fst (add_contact pf (nm # rest) book) =
              Str (if phone \<noteq> [] then lit ''Contact updated.'' @ lit '' Phone number: '' @ phone
                   else lit ''Contact updated.'')"
        using Cons h Inr
        by (auto simp: add_contact_def input_error_def split: prod.splits sum.splits)
      with h show ?thesis by (simp add: lit_def split: if_splits)
    qed
  qed
  then show "snd (add_contact pf (nm # rest) book) = book"
    by (simp add: add_contact_def snd_input_error)
qed

theorem errors_leave_book_unchanged_witness:
  "add_birthday example_platform [lit ''john'', lit ''1990-02-01''] john_book =
     (Str (lit ''Error: Invalid date format. Use DD.MM.YYYY''), john_book) \<and>
   add_contact example_platform [lit ''john'', lit ''1234567890''] john_book =
     (Str (lit ''Error: Phone number already exists.''), john_book) \<and>
   add_contact example_platform [lit ''john'', lit ''12-34''] john_book =
     (Str (lit ''Error: Phone number must be a 10-digit number.''), john_book)"
proof -
  have f: "AddressBook_find example_platform john_book (lit ''john'') = Some 0"
    by (simp add: eval_book eval_strings)
  have a: "fst (add_birthday example_platform [lit ''john'', lit ''1990-02-01''] john_book) =
      Str (lit ''Error: '' @ lit ''Invalid date format. Use DD.MM.YYYY'')"
    by (simp add: add_birthday_def eval_book eval_strings eval_digits eval_date)
  have b: "fst (add_contact example_platform [lit ''john'', lit ''1234567890''] john_book) =
      Str (lit ''Error: '' @ lit ''Phone number already exists.'')"
    by (simp add: add_contact_def eval_book eval_strings)
  have c: "fst (add_contact example_platform [lit ''john'', lit ''12-34''] john_book) =
      Str (lit ''Error: '' @ lit ''Phone number must be a 10-digit number.'')"
    by (simp add: add_contact_def eval_book eval_strings)
  have a': "snd (add_birthday example_platform [lit ''john'', lit ''1990-02-01''] john_book) = john_book"
    using errors_leave_book_unchanged [of example_platform "[lit ''john'', lit ''1990-02-01'']"
        john_book "lit ''Invalid date format. Use DD.MM.YYYY''" "lit ''john''" "[]" 0] a
    by blast
  have b': "snd (add_contact example_platform [lit ''john'', lit ''1234567890''] john_book) = john_book"
    using errors_leave_book_unchanged [of example_platform "[]" john_book
        "lit ''Phone number already exists.''" "lit ''john''" "[lit ''1234567890'']" 0] b f
    by blast
  have c': "snd (add_contact example_platform [lit ''john'', lit ''12-34''] john_book) = john_book"
    using errors_leave_book_unchanged [of example_platform "[]" john_book
        "lit ''Phone number must be a 10-digit number.''" "lit ''john''" "[lit ''12-34'']" 0] c f
    by blast
  from a b c a' b' c' show ?thesis
    by (simp add: prod_eq_iff lit_def)
qed

text \<open>
  The remaining case in general: when the add handler returns an error string for a name
  that no record has, the book has gained the new record, without phones, and nothing else
  has changed.
\<close>

lemma add_contact_error_new_name:
  assumes "fst (add_contact pf (nm # rest) book) = Str (lit ''Error: '' @ m)"
    and "AddressBook_find pf book nm = None"
  shows "snd (add_contact pf (nm # rest) book) = AddressBook_add_record book (Record_init nm)"
proof -
  let ?book1 = "AddressBook_add_record book (Record_init nm)"
  have new: "contacts ?book1 ! length (contacts book) = Record_init nm"
    by (simp add: AddressBook_add_record_def)
  have same: "set_record ?book1 (length (contacts book)) (Record_init nm) = ?book1"
    by (simp add: AddressBook_add_record_def set_record_def)
  have "snd (add_contact_body pf (nm # rest, book)) = ?book1"
  proof (cases rest)
    case Nil
    with assms(1) show ?thesis
      by (simp add: add_contact_def input_error_def lit_def)
  next
    case (Cons phone extra)
    show ?thesis
    proof (cases "fst (Record_add_phone (Record_init nm) phone)")
      case (Inl e)
      then have "snd (Record_add_phone (Record_init nm) phone) = Record_init nm"
        by (auto simp: Record_add_phone_def split: if_splits sum.splits)
      with Cons assms(2) Inl new same show ?thesis
        by (auto split: prod.splits sum.splits)
    next
      case (Inr u)
      have "fst (add_contact pf (nm # rest) book) =
              Str (if phone \<noteq> [] then lit ''Contact added.'' @ lit '' Phone number: '' @ phone
                   else lit ''Contact added.'')"
        using Cons assms(2) Inr new
        by (auto simp: add_contact_def input_error_def split: prod.splits sum.splits)
      with assms(1) show ?thesis by (simp add: lit_def split: if_splits)
    qed
  qed
  then show ?thesis
    by (simp add: add_contact_def snd_input_error)
qed

section \<open>Exceptions at the handler boundary\<close>

text \<open>
  C2, as the claim states it, fails: the add handler with one argument, a wrong argument
  count, returns the usage string as it is, and that string is not of the form
  \<open>Error: <description>\<close>. A wrong argument count raises nothing; the handler returns the
  usage string itself.
\<close>

theorem usage_string_has_no_error_prefix:
  "add_contact example_platform [lit ''John''] AddressBook_init =
     (Str (lit ''Invalid command. Use 'add [name] [phone]'.''), AddressBook_init) \<and>
   take 7 (lit ''Invalid command. Use 'add [name] [phone]'.'') \<noteq> lit ''Error: ''"
  by (simp add: add_contact_def input_error_def lit_def)

text \<open>
  C2, amended. No exception leaves a handler. Every exception raised in a handler's body
  (the \<open>ValueError\<close> of a malformed phone, a duplicate phone or a malformed date) is caught
  by the decorator and returned as the string \<open>Error: <message>\<close>; what the body returns is
  returned as it is. A wrong argument count raises nothing: the handler returns its usage
  string, which starts with \<open>Invalid command.\<close> and carries no \<open>Error: \<close> prefix. The caller
  receives a string from every handler but \<open>all\<close>, and the record list from \<open>all\<close>.
\<close>

theorem handlers_return_strings_and_catch_errors:
  "(func a = (Inl (ValueError m), book) \<longrightarrow>
      input_error func a = (Str (lit ''Error: '' @ m), book)) \<and>
   (func a = (Inr r, book) \<longrightarrow> input_error func a = (r, book)) \<and>
   (fst (add_contact_body pf (args, book)) = Inl (ValueError m) \<longrightarrow>
      fst (add_contact pf args book) = Str (lit ''Error: '' @ m)) \<and>
   (fst (change_contact_body pf (args, book)) = Inl (ValueError m) \<longrightarrow>
      fst (change_contact pf args book) = Str (lit ''Error: '' @ m)) \<and>
   (fst (add_birthday_body pf (args, book)) = Inl (ValueError m) \<longrightarrow>
      fst (add_birthday pf args book) = Str (lit ''Error: '' @ m)) \<and>
   (\<exists>s. fst (add_contact pf args book) = Str s) \<and>
   (\<exists>s. fst (change_contact pf args book) = Str s) \<and>
   (\<exists>s. fst (show_phone pf args book) = Str s) \<and>
   (\<exists>s. fst (add_birthday pf args book) = Str s) \<and>
   (\<exists>s. fst (show_birthday pf args book) = Str s) \<and>
   (\<exists>s. fst (birthdays pf book) = Str s) \<and>
   fst (show_all_contacts book) = Contacts (contacts book) \<and>
   (length args < 2 \<longrightarrow>
      add_contact pf args book =
        (Str (lit ''Invalid command. Use 'add [name] [phone]'.''), book)) \<and>
   (length args \<noteq> 2 \<longrightarrow>
      change_contact pf args book =
        (Str (lit ''Invalid command. Please use 'change [name] [new_phone]'.''), book)) \<and>
   (length args \<noteq> 1 \<longrightarrow>
      show_phone pf args book = (Str (lit ''Invalid command. Use 'phone [name]'.''), book)) \<and>
   (length args \<noteq> 2 \<longrightarrow>
      add_birthday pf args book =
        (Str (lit ''Invalid command. Use 'add-birthday [name] [date]'.''), book)) \<and>
   (length args \<noteq> 1 \<longrightarrow>
      show_birthday pf args book =
        (Str (lit ''Invalid command. Use 'show-birthday [name]'.''), book))"
proof -
  have raise: "input_error func a = (Str (lit ''Error: '' @ m), book)"
    if "func a = (Inl (ValueError m), book)" for func :: "'a \<Rightarrow> outcome" and a
    using that by (rule input_error_raise)
  have ret: "input_error func a = (r, book)"
    if "func a = (Inr r, book)" for func :: "'a \<Rightarrow> outcome" and a
    using that by (rule input_error_return)
  have fst_raise: "fst (input_error f x) = Str (lit ''Error: '' @ m)"
    if "fst (f x) = Inl (ValueError m)" for f :: "pystr list \<times> AddressBook \<Rightarrow> outcome" and x
    using that by (cases "f x") (simp add: input_error_def)
  have str: "\<exists>s. fst (input_error f x) = Str s"
    if "\<And>c. fst (f x) \<noteq> Inr (Contacts c)" for f :: "'b \<Rightarrow> outcome" and x
  proof (cases "f x")
    case (Pair o1 b1)
    show ?thesis
    proof (cases o1)
      case (Inl e)
      with Pair show ?thesis by (cases e) (simp add: input_error_def)
    next
      case (Inr r1)
      with Pair that [of "case r1 of Contacts c \<Rightarrow> c | _ \<Rightarrow> []"] show ?thesis
        by (cases r1) (simp_all add: input_error_def)
    qed
  qed
  have s1: "fst (add_contact_body pf (args, book)) \<noteq> Inr (Contacts c)" for c
    by (cases "(pf, (args, book))" rule: add_contact_body.cases)
      (auto split: option.splits prod.splits sum.splits if_splits)
  have s2: "fst (change_contact_body pf (args, book)) \<noteq> Inr (Contacts c)" for c
    by (cases "(pf, (args, book))" rule: change_contact_body.cases)
      (auto simp: Let_def split: option.splits prod.splits sum.splits)
  have s3: "fst (show_phone_body pf (args, book)) \<noteq> Inr (Contacts c)" for c
    by (cases "(pf, (args, book))" rule: show_phone_body.cases)
      (auto split: option.splits)
  have s4: "fst (add_birthday_body pf (args, book)) \<noteq> Inr (Contacts c)" for c
    by (cases "(pf, (args, book))" rule: add_birthday_body.cases)
      (auto split: option.splits prod.splits sum.splits)
  have s5: "fst (show_birthday_body pf (args, book)) \<noteq> Inr (Contacts c)" for c
    by (cases "(pf, (args, book))" rule: show_birthday_body.cases)
      (auto split: option.splits)
  have s6: "fst (birthdays_body pf book) \<noteq> Inr (Contacts c)" for c
    by (simp add: birthdays_body_def)
  have all: "fst (show_all_contacts book) = Contacts (contacts book)"
    by (simp add: show_all_contacts_def show_all_contacts_body_def input_error_def)
  have u1: "add_contact pf args book =
        (Str (lit ''Invalid command. Use 'add [name] [phone]'.''), book)" if "length args < 2"
    unfolding add_contact_def using that
    by (intro input_error_return)
      (cases "(pf, (args, book))" rule: add_contact_body.cases, simp_all)
  have u2: "change_contact pf args book =
        (Str (lit ''Invalid command. Please use 'change [name] [new_phone]'.''), book)"
    if "length args \<noteq> 2"
    unfolding change_contact_def using that
    by (intro input_error_return)
      (cases "(pf, (args, book))" rule: change_contact_body.cases, simp_all)
  have u3: "show_phone pf args book = (Str (lit ''Invalid command. Use 'phone [name]'.''), book)"
    if "length args \<noteq> 1"
    unfolding show_phone_def using that
    by (intro input_error_return)
      (cases "(pf, (args, book))" rule: show_phone_body.cases, simp_all)
  have u4: "add_birthday pf args book =
        (Str (lit ''Invalid command. Use 'add-birthday [name] [date]'.''), book)"
    if "length args \<noteq> 2"
    unfolding add_birthday_def using that
    by (intro input_error_return)
      (cases "(pf, (args, book))" rule: add_birthday_body.cases, simp_all)
  have u5: "show_birthday pf args book =
        (Str (lit ''Invalid command. Use 'show-birthday [name]'.''), book)"
    if "length args \<noteq> 1"
    unfolding show_birthday_def using that
    by (intro input_error_return)
      (cases "(pf, (args, book))" rule: show_birthday_body.cases, simp_all)
  have e1: "fst (add_contact pf args book) = Str (lit ''Error: '' @ m)"
    if "fst (add_contact_body pf (args, book)) = Inl (ValueError m)"
    unfolding add_contact_def using that by (rule fst_raise)
  have e2: "fst (change_contact pf args book) = Str (lit ''Error: '' @ m)"
    if "fst (change_contact_body pf (args, book)) = Inl (ValueError m)"
    unfolding change_contact_def using that by (rule fst_raise)
  have e3: "fst (add_birthday pf args book) = Str (lit ''Error: '' @ m)"
    if "fst (add_birthday_body pf (args, book)) = Inl (ValueError m)"
    unfolding add_birthday_def using that by (rule fst_raise)
  have t1: "\<exists>s. fst (add_contact pf args book) = Str s"
    unfolding add_contact_def by (rule str) (rule s1)
  have t2: "\<exists>s. fst (change_contact pf args book) = Str s"
    unfolding change_contact_def by (rule str) (rule s2)
  have t3: "\<exists>s. fst (show_phone pf args book) = Str s"
    unfolding show_phone_def by (rule str) (rule s3)
  have t4: "\<exists>s. fst (add_birthday pf args book) = Str s"
    unfolding add_birthday_def by (rule str) (rule s4)
  have t5: "\<exists>s. fst (show_birthday pf args book) = Str s"
    unfolding show_birthday_def by (rule str) (rule s5)
  have t6: "\<exists>s. fst (birthdays pf book) = Str s"
    unfolding birthdays_def by (rule str) (rule s6)
  from raise [of func a] ret [of func a] e1 e2 e3 t1 t2 t3 t4 t5 t6 all u1 u2 u3 u4 u5
  show ?thesis by blast
qed

theorem handlers_return_strings_and_catch_errors_witness:
  "change_contact example_platform [lit ''john'', lit ''12ab''] john_book =
     (Str (lit ''Error: Phone number must be a 10-digit number.''),
      \<lparr>contacts = [\<lparr>name = lit ''John'', phones = [],
                    birthday = Some \<lparr>year = 1990, month = 2, day = 1\<rparr>\<rparr>]\<rparr>) \<and>
   change_contact example_platform [lit ''john''] john_book =
     (Str (lit ''Invalid command. Please use 'change [name] [new_phone]'.''), john_book) \<and>
   fst (show_all_contacts john_book) = Contacts (contacts john_book)"
proof -
  let ?b = "\<lparr>contacts = [\<lparr>name = lit ''John'', phones = [],
                    birthday = Some \<lparr>year = 1990, month = 2, day = 1\<rparr>\<rparr>]\<rparr>"
  have body: "change_contact_body example_platform ([lit ''john'', lit ''12ab''], john_book) =
      (Inl (ValueError (lit ''Phone number must be a 10-digit number.'')), ?b)"
    by (simp add: eval_book eval_strings)
  have "input_error (change_contact_body example_platform) ([lit ''john'', lit ''12ab''], john_book) =
      (Str (lit ''Error: '' @ lit ''Phone number must be a 10-digit number.''), ?b)"
    using handlers_return_strings_and_catch_errors
      [of "change_contact_body example_platform" "([lit ''john'', lit ''12ab''], john_book)"
        "lit ''Phone number must be a 10-digit number.''" ?b] body
    by blast
  moreover have len: "length [lit ''john''] \<noteq> 2"
    by simp
  moreover have "change_contact example_platform [lit ''john''] john_book =
     (Str (lit ''Invalid command. Please use 'change [name] [new_phone]'.''), john_book) \<and>
     fst (show_all_contacts john_book) = Contacts (contacts john_book)"
    using handlers_return_strings_and_catch_errors
      [of "change_contact_body example_platform" "([lit ''john''], john_book)"
        "[]" john_book "Str []" example_platform "[lit ''john'']"] len
    by blast
  ultimately show ?thesis
    by (simp add: change_contact_def lit_def)
qed

end
